theory Spec2Isabelle
  imports Complex_Main
begin

section \<open>Helper functions (utils/helpers.js)\<close>

text \<open>
  A JavaScript \<open>Date\<close> is modelled by its time value: the number of milliseconds
  since the epoch, an integer. (An invalid \<open>Date\<close>, whose time value is not a number, is
  not modelled.) The wall clock read by \<open>new Date()\<close> is an
  explicit argument \<open>now\<close> of every function that reads it.
\<close>

type_synonym date = int

subsection \<open>batchArray\<close>

text \<open>
  \<open>Array.prototype.slice(start, end)\<close> for \<open>0 \<le> start\<close>: the elements from index
  \<open>start\<close> up to, not including, \<open>end\<close>, clamped to the length of the array.
\<close>

definition slice :: "'a list \<Rightarrow> nat \<Rightarrow> nat \<Rightarrow> 'a list" where
  "slice array start end = drop start (take end array)"

text \<open>
  The loop \<open>for (let i = 0; i < array.length; i += size) batches.push(array.slice(i, i + size))\<close>.
  With \<open>size = 0\<close> and a non-empty array the loop never ends, so the loop is a partial
  function: not returning is the value \<open>None\<close>.
\<close>

partial_function (option) batchArray_loop ::
  "'a list \<Rightarrow> nat \<Rightarrow> nat \<Rightarrow> 'a list list \<Rightarrow> 'a list list option" where
  "batchArray_loop array sz i batches =
     (if i < length array
      then batchArray_loop array sz (i + sz) (batches @ [slice array i (i + sz)])
      else Some batches)"

declare batchArray_loop.simps [code]

definition batchArray :: "'a list \<Rightarrow> nat \<Rightarrow> 'a list list option" where
  "batchArray array sz = batchArray_loop array sz 0 []"

subsection \<open>JavaScript numbers\<close>

text \<open>
  A number is an IEEE 754 double. A time value is an integer, and a double holds an
  integer exactly up to \<open>2 ^ 53\<close> in magnitude. The difference of two time values and the
  quotient of a difference by the milliseconds of an hour are rounded to the nearest
  double, a tie going to the even significand.

  \<open>round_half_even a b\<close> is the integer nearest to \<open>a / b\<close>, a tie going to the even
  one. \<open>binary_exponent a b\<close> is \<open>\<lfloor>log\<^sub>2 (a / b)\<rfloor>\<close> for positive \<open>a\<close> and \<open>b\<close>, found from
  the bit lengths of the two. \<open>nearest_double a b\<close> is the double nearest to \<open>a / b\<close>:
  the quotient is scaled to a significand of 53 bits, rounded, and scaled back. A valid
  \<open>Date\<close> has a time value of at most \<open>8.64e15\<close> in magnitude, so the numbers formed here
  are far inside the exponent range of a double, which is not modelled.
\<close>

function bit_length :: "nat \<Rightarrow> nat" where
  "bit_length n = (if n = 0 then 0 else bit_length (n div 2) + 1)"
  by pat_completeness auto
termination
  by (relation "measure (\<lambda>n. n)") auto

declare bit_length.simps [simp del]

definition round_half_even :: "nat \<Rightarrow> nat \<Rightarrow> nat" where
  "round_half_even a b =
     (let q = a div b; r = a mod b
      in if 2 * r < b \<or> (2 * r = b \<and> even q) then q else q + 1)"

definition binary_exponent :: "nat \<Rightarrow> nat \<Rightarrow> int" where
  "binary_exponent a b =
     (let k = int (bit_length a) - int (bit_length b)
      in if (if 0 \<le> k then b * 2 ^ nat k \<le> a else b \<le> a * 2 ^ nat (- k)) then k else k - 1)"

definition nearest_double :: "nat \<Rightarrow> nat \<Rightarrow> real" where
  "nearest_double a b =
     (if a = 0 then 0
      else
        let s = binary_exponent a b - 52
        in if 0 \<le> s then real (round_half_even a (b * 2 ^ nat s) * 2 ^ nat s)
           else real (round_half_even (a * 2 ^ nat (- s)) b) / 2 ^ nat (- s))"

text \<open>
  \<open>x / b\<close> for an integer \<open>x\<close> and a positive integer \<open>b\<close>, and \<open>x - y\<close> for two integers,
  as the numbers the program computes. A difference above \<open>2 ^ 53\<close> in magnitude is
  rounded to a multiple of a power of two.
\<close>

definition number_div :: "int \<Rightarrow> nat \<Rightarrow> real" where
  "number_div x b =
     (if x < 0 then - nearest_double (nat (- x)) b else nearest_double (nat x) b)"

definition number_sub :: "int \<Rightarrow> int \<Rightarrow> int" where
  "number_sub x y =
     (let d = x - y; a = nat \<bar>d\<bar>
      in if a \<le> 2 ^ 53 then d
         else let s = bit_length a - 53
              in sgn d * int (round_half_even a (2 ^ s) * 2 ^ s))"

subsection \<open>hoursSince and isDataFresh\<close>

text \<open>
  \<open>hoursSince\<close> returns \<open>null\<close> for a missing date and otherwise the difference of the
  two time values divided by the milliseconds of an hour, both computed on numbers.
  \<open>isDataFresh\<close> compares that age with the threshold, a number (the configuration
  parses it with \<open>parseInt\<close>). The two functions read the clock and nothing else, and
  they write nothing: the clock reading is their argument \<open>now\<close> and the returned value
  their only result.
\<close>

definition hoursSince :: "date \<Rightarrow> date option \<Rightarrow> real option" where
  "hoursSince now d =
     (case d of
        None \<Rightarrow> None
      | Some t \<Rightarrow> (let diffMs = number_sub now t in Some (number_div diffMs (1000 * 60 * 60))))"

definition isDataFresh :: "date \<Rightarrow> date option \<Rightarrow> real \<Rightarrow> bool" where
  "isDataFresh now fetchedAt maxAgeHours =
     (if fetchedAt = None then False
      else (case hoursSince now fetchedAt of
              None \<Rightarrow> False
            | Some age \<Rightarrow> age \<le> maxAgeHours))"

section \<open>The document store\<close>

text \<open>
  The persistent store holds, for each of the three location classes, a collection of
  current snapshots and a collection of history records. A collection is the list of its
  documents in insertion order. The store-assigned \<open>_id\<close> of a document is not part of
  the model: documents are identified by their fields.
\<close>

datatype weather_class = City | Grid | Port

text \<open>
  Every operation on a collection returns a promise that may reject. Whether a given
  operation rejects is an input of the model: \<open>fails c op\<close> says that operation \<open>op\<close> on
  the collections of class \<open>c\<close> rejects. A rejected operation leaves its collection as it
  was; the rejection is the error value \<open>StoreError\<close>, which the caller propagates as
  \<open>await\<close> does.
\<close>

datatype store_op =
    Find | InsertManyHistory | BulkWrite | DeleteMany | InsertMany | DeleteManyHistory

datatype store_error = StoreError weather_class store_op

type_synonym faults = "weather_class \<Rightarrow> store_op \<Rightarrow> bool"

subsection \<open>Documents\<close>

record coords =
  latitude :: real
  longitude :: real
  elevation :: real

text \<open>
  A city or grid snapshot as the collectors build it (\<open>name\<close>, \<open>lat\<close>, \<open>lon\<close>,
  \<open>coordinates\<close>, \<open>weather_data\<close>); the payload \<open>weather_data\<close> is opaque to the
  repository. A stored document has the same fields and \<open>updated_at\<close>.
\<close>

record 'w weather =
  name :: string
  lat :: real
  lon :: real
  coordinates :: coords
  weather_data :: 'w

record 'w weather_doc = "'w weather" +
  updated_at :: date

text \<open>A JSON value, as a provider returns it, and JavaScript's truthiness of it.\<close>

datatype json =
    JNull | JBool bool | JNum real | JStr string | JArr "json list" | JObj "(string \<times> json) list"

fun truthy :: "json \<Rightarrow> bool" where
  "truthy JNull = False"
| "truthy (JBool b) = b"
| "truthy (JNum x) = (x \<noteq> 0)"
| "truthy (JStr s) = (s \<noteq> [])"
| "truthy (JArr xs) = True"
| "truthy (JObj kvs) = True"

text \<open>
  A port snapshot as \<open>fetchPortWeather\<close> builds it. The key \<open>error\<close> is present only on
  a failed or errored snapshot. A stored port document has the same fields and
  \<open>updated_at\<close>.
\<close>

record port_weather =
  port_name :: string
  slug :: string
  port_coordinates :: "real \<times> real"
  port_weather_data :: json
  fetched_at :: date
  status :: string
  error :: "string option"

record port_weather_doc = port_weather +
  port_updated_at :: date

text \<open>
  A history record is the archived document with two more fields, \<open>archived_at\<close> and
  \<open>original_updated_at\<close> (the source builds it as the spread of the document followed
  by the two fields).
\<close>

record 'd archived =
  doc :: 'd
  archived_at :: date
  original_updated_at :: date

record 'w db =
  city_weather :: "'w weather_doc list"
  grid_weather :: "'w weather_doc list"
  port_weather :: "port_weather_doc list"
  city_weather_history :: "'w weather_doc archived list"
  grid_weather_history :: "'w weather_doc archived list"
  port_weather_history :: "port_weather_doc archived list"

subsection \<open>Collection operations\<close>

text \<open>
  The operations of a collection that the repository uses: \<open>find\<close> with a filter,
  \<open>insertMany\<close>, \<open>deleteMany\<close> with a filter (it reports the number of documents
  deleted), and an ordered \<open>bulkWrite\<close> of \<open>updateOne\<close> operations with \<open>upsert: true\<close>.
  An \<open>updateOne\<close> applies its update to the first document that matches the filter and,
  when none matches, inserts a new document.
\<close>

definition find_docs :: "('d \<Rightarrow> bool) \<Rightarrow> 'd list \<Rightarrow> 'd list" where
  "find_docs P c = filter P c"

definition insertMany :: "'d list \<Rightarrow> 'd list \<Rightarrow> 'd list" where
  "insertMany docs c = c @ docs"

definition deleteMany :: "('d \<Rightarrow> bool) \<Rightarrow> 'd list \<Rightarrow> nat \<times> 'd list" where
  "deleteMany P c = (length (filter P c), filter (\<lambda>d. \<not> P d) c)"

fun updateOne :: "('d \<Rightarrow> bool) \<Rightarrow> ('d \<Rightarrow> 'd) \<Rightarrow> 'd \<Rightarrow> 'd list \<Rightarrow> 'd list" where
  "updateOne P upd ins [] = [ins]"
| "updateOne P upd ins (d # ds) =
     (if P d then upd d # ds else d # updateOne P upd ins ds)"

definition bulkWrite :: "('d list \<Rightarrow> 'd list) list \<Rightarrow> 'd list \<Rightarrow> 'd list" where
  "bulkWrite operations c = fold (\<lambda>operation. operation) operations c"

section \<open>The repository (utils/weatherRepository.js)\<close>

text \<open>
  Each function takes the fault assignment, the clock reading and the store, and returns
  its result, or the error it throws, together with the store it leaves behind. One call
  reads the clock several times (once for each document it stamps); the readings of one
  call are taken to be the same instant \<open>now\<close>.
\<close>

subsection \<open>Archival\<close>

text \<open>
  The archive functions accept one key or an array of keys; the save functions pass an
  array, and the model takes the list. \<open>find\<close> returns the matching documents in the
  order of the collection.
\<close>

definition archive_copy :: "date \<Rightarrow> date \<Rightarrow> 'd \<Rightarrow> 'd archived" where
  "archive_copy now original d = \<lparr>doc = d, archived_at = now, original_updated_at = original\<rparr>"

definition archiveCityWeather ::
  "faults \<Rightarrow> date \<Rightarrow> string list \<Rightarrow> 'w db \<Rightarrow> (store_error + nat) \<times> 'w db" where
  "archiveCityWeather fails now names db =
     (if fails City Find then (Inl (StoreError City Find), db)
      else
        let currentData = find_docs (\<lambda>d. name d \<in> set names) (city_weather db) in
        if length currentData = 0 then (Inr 0, db)
        else
          let historyDocs = map (\<lambda>d. archive_copy now (updated_at d) d) currentData in
          if fails City InsertManyHistory then (Inl (StoreError City InsertManyHistory), db)
          else (Inr (length historyDocs),
                db\<lparr>city_weather_history := insertMany historyDocs (city_weather_history db)\<rparr>))"

definition archiveGridWeather ::
  "faults \<Rightarrow> date \<Rightarrow> (real \<times> real) list \<Rightarrow> 'w db \<Rightarrow> (store_error + nat) \<times> 'w db" where
  "archiveGridWeather fails now gridPoints db =
     (if length gridPoints = 0 then (Inr 0, db)
      else if fails Grid Find then (Inl (StoreError Grid Find), db)
      else
        let currentData = find_docs (\<lambda>d. (lat d, lon d) \<in> set gridPoints) (grid_weather db) in
        if length currentData = 0 then (Inr 0, db)
        else
          let historyDocs = map (\<lambda>d. archive_copy now (updated_at d) d) currentData in
          if fails Grid InsertManyHistory then (Inl (StoreError Grid InsertManyHistory), db)
          else (Inr (length historyDocs),
                db\<lparr>grid_weather_history := insertMany historyDocs (grid_weather_history db)\<rparr>))"

definition archivePortWeather ::
  "faults \<Rightarrow> date \<Rightarrow> string list \<Rightarrow> 'w db \<Rightarrow> (store_error + nat) \<times> 'w db" where
  "archivePortWeather fails now slugs db =
     (if fails Port Find then (Inl (StoreError Port Find), db)
      else
        let currentData = find_docs (\<lambda>d. slug d \<in> set slugs) (port_weather db) in
        if length currentData = 0 then (Inr 0, db)
        else
          let historyDocs = map (\<lambda>d. archive_copy now (port_updated_at d) d) currentData in
          if fails Port InsertManyHistory then (Inl (StoreError Port InsertManyHistory), db)
          else (Inr (length historyDocs),
                db\<lparr>port_weather_history := insertMany historyDocs (port_weather_history db)\<rparr>))"

subsection \<open>Saving snapshots\<close>

text \<open>
  The document \<open>{...snapshot, updated_at: new Date()}\<close>. For a city it is the content of
  the \<open>$set\<close> of the upsert, which names every field of the stored document; for a grid
  point it is the document inserted.
\<close>

definition weather_document :: "date \<Rightarrow> 'w weather \<Rightarrow> 'w weather_doc" where
  "weather_document now s =
     \<lparr>name = name s, lat = lat s, lon = lon s, coordinates = coordinates s,
      weather_data = weather_data s, updated_at = now\<rparr>"

text \<open>
  The \<open>$set\<close> of a port upsert names the keys of the snapshot and \<open>updated_at\<close>. A
  snapshot without the key \<open>error\<close> leaves the stored \<open>error\<close> as it is; a document
  inserted by the upsert has the snapshot's fields.
\<close>

definition port_document :: "date \<Rightarrow> port_weather \<Rightarrow> port_weather_doc" where
  "port_document now s =
     \<lparr>port_name = port_name s, slug = slug s, port_coordinates = port_coordinates s,
      port_weather_data = port_weather_data s, fetched_at = fetched_at s, status = status s,
      error = error s, port_updated_at = now\<rparr>"

definition port_set :: "date \<Rightarrow> port_weather \<Rightarrow> port_weather_doc \<Rightarrow> port_weather_doc" where
  "port_set now s old =
     \<lparr>port_name = port_name s, slug = slug s, port_coordinates = port_coordinates s,
      port_weather_data = port_weather_data s, fetched_at = fetched_at s, status = status s,
      error = (case error s of None \<Rightarrow> error old | Some e \<Rightarrow> Some e),
      port_updated_at = now\<rparr>"

definition saveCityWeatherData ::
  "faults \<Rightarrow> date \<Rightarrow> 'w weather list \<Rightarrow> 'w db \<Rightarrow> (store_error + unit) \<times> 'w db" where
  "saveCityWeatherData fails now data db =
     (if length data = 0 then (Inr (), db)
      else
        let cityNames = map name data in
        case archiveCityWeather fails now cityNames db of
          (Inl e, db1) \<Rightarrow> (Inl e, db1)
        | (Inr archivedCount, db1) \<Rightarrow>
            let operations =
                  map (\<lambda>city. updateOne (\<lambda>d. name d = name city)
                                 (\<lambda>old. weather_document now city) (weather_document now city))
                      data in
            if fails City BulkWrite then (Inl (StoreError City BulkWrite), db1)
            else (Inr (), db1\<lparr>city_weather := bulkWrite operations (city_weather db1)\<rparr>))"

definition saveGridWeatherData ::
  "faults \<Rightarrow> date \<Rightarrow> 'w weather list \<Rightarrow> 'w db \<Rightarrow> (store_error + unit) \<times> 'w db" where
  "saveGridWeatherData fails now data db =
     (if length data = 0 then (Inr (), db)
      else
        let gridPoints = map (\<lambda>point. (lat point, lon point)) data in
        case archiveGridWeather fails now gridPoints db of
          (Inl e, db1) \<Rightarrow> (Inl e, db1)
        | (Inr archivedCount, db1) \<Rightarrow>
            if fails Grid DeleteMany then (Inl (StoreError Grid DeleteMany), db1)
            else
              let db2 = db1\<lparr>grid_weather := snd (deleteMany (\<lambda>d. True) (grid_weather db1))\<rparr>;
                  documents = map (weather_document now) data in
              if fails Grid InsertMany then (Inl (StoreError Grid InsertMany), db2)
              else (Inr (), db2\<lparr>grid_weather := insertMany documents (grid_weather db2)\<rparr>))"

definition savePortWeatherData ::
  "faults \<Rightarrow> date \<Rightarrow> port_weather list \<Rightarrow> 'w db \<Rightarrow> (store_error + unit) \<times> 'w db" where
  "savePortWeatherData fails now data db =
     (if length data = 0 then (Inr (), db)
      else
        let portSlugs = map slug data in
        case archivePortWeather fails now portSlugs db of
          (Inl e, db1) \<Rightarrow> (Inl e, db1)
        | (Inr archivedCount, db1) \<Rightarrow>
            let operations =
                  map (\<lambda>port. updateOne (\<lambda>d. slug d = slug port)
                                 (port_set now port) (port_document now port))
                      data in
            if fails Port BulkWrite then (Inl (StoreError Port BulkWrite), db1)
            else (Inr (), db1\<lparr>port_weather := bulkWrite operations (port_weather db1)\<rparr>))"

subsection \<open>Retention cleanup\<close>

record cleanup_result =
  city :: nat
  grid :: nat
  port :: nat
  total :: nat

text \<open>
  The time zone of the process is an input of the model. \<open>utc_offset zone t\<close> is the
  offset of local time from UTC, in milliseconds, at the instant \<open>t\<close>;
  \<open>local_offset zone t\<close> is the offset at the local time \<open>t\<close> (for a local time that a
  change of the clocks skips or repeats, the one the runtime picks). \<open>LocalTime\<close> and
  \<open>UTC\<close> are the two conversions of the language; \<open>Day\<close>, \<open>TimeWithinDay\<close> and
  \<open>MakeDate\<close> split a time value into its day number and the time within the day, and
  put the two together.
\<close>

record time_zone =
  utc_offset :: "date \<Rightarrow> int"
  local_offset :: "int \<Rightarrow> int"

definition msPerDay :: int where
  "msPerDay = 24 * 60 * 60 * 1000"

definition LocalTime :: "time_zone \<Rightarrow> date \<Rightarrow> int" where
  "LocalTime zone t = t + utc_offset zone t"

definition UTC :: "time_zone \<Rightarrow> int \<Rightarrow> date" where
  "UTC zone t = t - local_offset zone t"

definition Day :: "int \<Rightarrow> int" where
  "Day t = t div msPerDay"

definition TimeWithinDay :: "int \<Rightarrow> int" where
  "TimeWithinDay t = t mod msPerDay"

definition MakeDate :: "int \<Rightarrow> int \<Rightarrow> int" where
  "MakeDate day time = day * msPerDay + time"

text \<open>
  \<open>d.setDate(d.getDate() - n)\<close> for a whole number \<open>n\<close>. \<open>getDate\<close> is the day of the
  month of the local day of \<open>d\<close>; \<open>setDate\<close> with a day of the month below \<open>1\<close> counts
  back into the months before, so the new local day is the one \<open>n\<close> days before the
  local day of \<open>d\<close>. The time within the local day is kept, and the local time so made
  is converted to UTC.
\<close>

definition setDate_getDate_minus :: "time_zone \<Rightarrow> date \<Rightarrow> int \<Rightarrow> date" where
  "setDate_getDate_minus zone d n =
     (let t = LocalTime zone d;
          newDate = MakeDate (Day t - n) (TimeWithinDay t)
      in UTC zone newDate)"

definition deleteManyHistory ::
  "faults \<Rightarrow> weather_class \<Rightarrow> date \<Rightarrow> 'd archived list \<Rightarrow> (store_error + nat) \<times> 'd archived list" where
  "deleteManyHistory fails c cutoffDate h =
     (if fails c DeleteManyHistory then (Inl (StoreError c DeleteManyHistory), h)
      else case deleteMany (\<lambda>r. archived_at r < cutoffDate) h of
             (deletedCount, h') \<Rightarrow> (Inr deletedCount, h'))"

text \<open>
  The three deletions are started together and awaited with \<open>Promise.all\<close>: each one
  that does not reject takes effect, and the call rejects with the first rejection.
\<close>

definition cleanupOldHistory ::
  "time_zone \<Rightarrow> faults \<Rightarrow> date \<Rightarrow> int option \<Rightarrow> 'w db
   \<Rightarrow> (store_error + cleanup_result) \<times> 'w db" where
  "cleanupOldHistory zone fails now daysToKeepArg db =
     (let daysToKeep = (case daysToKeepArg of None \<Rightarrow> 90 | Some n \<Rightarrow> n);
          cutoffDate = setDate_getDate_minus zone now daysToKeep;
          (cityResult, ch) = deleteManyHistory fails City cutoffDate (city_weather_history db);
          (gridResult, gh) = deleteManyHistory fails Grid cutoffDate (grid_weather_history db);
          (portResult, ph) = deleteManyHistory fails Port cutoffDate (port_weather_history db);
          db' = db\<lparr>city_weather_history := ch, grid_weather_history := gh,
                    port_weather_history := ph\<rparr>
      in case cityResult of
           Inl e \<Rightarrow> (Inl e, db')
         | Inr cityDeleted \<Rightarrow>
             (case gridResult of
                Inl e \<Rightarrow> (Inl e, db')
              | Inr gridDeleted \<Rightarrow>
                  (case portResult of
                     Inl e \<Rightarrow> (Inl e, db')
                   | Inr portDeleted \<Rightarrow>
                       (Inr \<lparr>city = cityDeleted, grid = gridDeleted, port = portDeleted,
                             total = cityDeleted + gridDeleted + portDeleted\<rparr>, db'))))"

section \<open>Strings\<close>

text \<open>
  The decimal numeral of a number, as a template literal prints it, and the two string
  methods the collectors use: \<open>toLowerCase\<close> (on ASCII letters) and \<open>includes\<close>.
\<close>

definition digit_char :: "nat \<Rightarrow> char" where
  "digit_char d = ''0123456789'' ! d"

function string_of_nat :: "nat \<Rightarrow> string" where
  "string_of_nat n =
     (if n < 10 then [digit_char n] else string_of_nat (n div 10) @ [digit_char (n mod 10)])"
  by pat_completeness auto
termination
  by (relation "measure (\<lambda>n. n)") auto

declare string_of_nat.simps [simp del]

definition toLowerCase :: "string \<Rightarrow> string" where
  "toLowerCase s =
     map (\<lambda>c. case map_of (zip ''ABCDEFGHIJKLMNOPQRSTUVWXYZ'' ''abcdefghijklmnopqrstuvwxyz'') c of
                 None \<Rightarrow> c | Some l \<Rightarrow> l) s"

fun includes_str :: "string \<Rightarrow> string \<Rightarrow> bool" where
  "includes_str [] sub = (sub = [])"
| "includes_str (c # cs) sub = (take (length sub) (c # cs) = sub \<or> includes_str cs sub)"

section \<open>The port collector (collectors/portWeatherCollector.js)\<close>

text \<open>
  A port as \<open>loadPortData\<close> returns it: \<open>id\<close>, \<open>name\<close>, \<open>lat\<close>, \<open>lon\<close>, \<open>slug\<close>.
\<close>

record port_location =
  id_p :: string
  name_p :: string
  lat_p :: real
  lon_p :: real
  slug_p :: string

text \<open>
  What the network does with one request is an input of the model: the server answers
  (after the redirects that the client follows) with a status code and a body, or the
  transport fails (time-out, connection refused) with a message.
\<close>

datatype http_outcome = HttpResponse nat json | TransportError string

record response =
  status_r :: nat
  data_r :: json

text \<open>
  \<open>axios.get\<close> is called without \<open>validateStatus\<close>, so the default of the library
  applies: the promise resolves with the response when the status is in the 2xx range
  and rejects otherwise; a transport failure rejects as well. The rejection is modelled
  by the \<open>message\<close> of the error.
\<close>

definition validateStatus :: "nat \<Rightarrow> bool" where
  "validateStatus st = (200 \<le> st \<and> st < 300)"

definition axios_get :: "http_outcome \<Rightarrow> string + response" where
  "axios_get outcome =
     (case outcome of
        TransportError message \<Rightarrow> Inl message
      | HttpResponse st body \<Rightarrow>
          if validateStatus st then Inr \<lparr>status_r = st, data_r = body\<rparr>
          else Inl (''Request failed with status code '' @ string_of_nat st))"

definition fetchPortWeather :: "http_outcome \<Rightarrow> date \<Rightarrow> port_location \<Rightarrow> port_weather" where
  "fetchPortWeather outcome now prt =
     (case axios_get outcome of
        Inr response \<Rightarrow>
          if status_r response = 200 \<and> truthy (data_r response)
          then \<lparr>port_name = name_p prt, slug = slug_p prt,
                port_coordinates = (lat_p prt, lon_p prt),
                port_weather_data = data_r response, fetched_at = now,
                status = ''success'', error = None\<rparr>
          else \<lparr>port_name = name_p prt, slug = slug_p prt,
                port_coordinates = (lat_p prt, lon_p prt),
                port_weather_data = JNull, fetched_at = now,
                status = ''failed'', error = Some (''HTTP '' @ string_of_nat (status_r response))\<rparr>
      | Inl message \<Rightarrow>
          \<lparr>port_name = name_p prt, slug = slug_p prt,
           port_coordinates = (lat_p prt, lon_p prt),
           port_weather_data = JNull, fetched_at = now,
           status = ''error'', error = Some message\<rparr>)"

text \<open>
  The loop of \<open>main\<close> over the ports: request \<open>i\<close> meets the outcome \<open>net i\<close> at the
  clock reading \<open>clock i\<close>. The loop returns \<open>results\<close>, \<open>successful\<close> and \<open>failed\<close>.
  (The delay after each request has no effect on these and is left out.)
\<close>

function main_port_loop ::
  "(nat \<Rightarrow> http_outcome) \<Rightarrow> (nat \<Rightarrow> date) \<Rightarrow> port_location list \<Rightarrow> nat
   \<Rightarrow> port_weather list \<Rightarrow> nat \<Rightarrow> nat \<Rightarrow> port_weather list \<times> nat \<times> nat" where
  "main_port_loop net clock ports i results successful failed =
     (if i < length ports then
        let prt = ports ! i;
            result = fetchPortWeather (net i) (clock i) prt
        in if status result = ''success''
           then main_port_loop net clock ports (i + 1) (results @ [result]) (successful + 1) failed
           else main_port_loop net clock ports (i + 1) (results @ [result]) successful (failed + 1)
      else (results, successful, failed))"
  by pat_completeness auto
termination
  by (relation "measure (\<lambda>(net, clock, ports, i, results, successful, failed). length ports - i)")
     auto

declare main_port_loop.simps [simp del]

section \<open>The grid collector (collectors/gridWeatherCollector.js)\<close>

record grid_point =
  name_g :: string
  lat_g :: real
  lon_g :: real

text \<open>
  One entry of the provider's answer: the coordinates and elevation it reports, when it
  does, and the \<open>current\<close> object, when there is one. The type \<open>'c\<close> stands for the
  current conditions together with the time zone fields, which the collector copies.
\<close>

record 'c location_data =
  latitude_d :: "real option"
  longitude_d :: "real option"
  elevation_d :: "real option"
  current_d :: "'c option"

text \<open>
  What the provider does with one request: it answers with an array of entries, or with
  a body that is not an array, or the request rejects with a message.
\<close>

datatype 'c meteo_outcome =
    MeteoArray "'c location_data list" | MeteoOther | MeteoError string

text \<open>What the fetcher does besides computing: requests, sleeps and log lines.\<close>

datatype fetch_event =
    Request nat nat
  | Sleep nat
  | LogFetchError string
  | LogBatchCompleted nat nat
  | LogBatchFailed nat nat
  | LogRateLimit nat nat
  | LogBatchError nat string
  | LogExhausted nat

text \<open>\<open>x || y\<close> on a number that may be missing: \<open>y\<close> when \<open>x\<close> is missing or \<open>0\<close>.\<close>

definition or_number :: "real option \<Rightarrow> real \<Rightarrow> real" where
  "or_number x y = (case x of None \<Rightarrow> y | Some v \<Rightarrow> if v = 0 then y else v)"

definition process_location :: "date \<Rightarrow> grid_point \<Rightarrow> 'c \<Rightarrow> 'c location_data \<Rightarrow> ('c \<times> date) weather" where
  "process_location now location current locationData =
     \<lparr>name = name_g location, lat = lat_g location, lon = lon_g location,
      coordinates = \<lparr>latitude = or_number (latitude_d locationData) (lat_g location),
                     longitude = or_number (longitude_d locationData) (lon_g location),
                     elevation = or_number (elevation_d locationData) 0\<rparr>,
      weather_data = (current, now)\<rparr>"

text \<open>
  The loop \<open>for (i = 0; i < response.data.length && i < locations.length; i++)\<close>: an
  entry with a \<open>current\<close> object gives a snapshot, an entry without one is skipped.
\<close>

fun process_response ::
  "date \<Rightarrow> 'c location_data list \<Rightarrow> grid_point list \<Rightarrow> ('c \<times> date) weather list" where
  "process_response now (locationData # rest) (location # locations) =
     (case current_d locationData of
        Some current \<Rightarrow>
          process_location now location current locationData # process_response now rest locations
      | None \<Rightarrow> process_response now rest locations)"
| "process_response now _ _ = []"

text \<open>
  \<open>fetchWeatherDataBatch\<close> catches every error of the request, logs it and returns the
  empty list. Its result type has an error side because its caller wraps the call in
  \<open>try\<close>; the second component is the log line it writes, if any.
\<close>

definition fetchWeatherDataBatch ::
  "'c meteo_outcome \<Rightarrow> date \<Rightarrow> grid_point list
   \<Rightarrow> string + (('c \<times> date) weather list \<times> fetch_event list)" where
  "fetchWeatherDataBatch outcome now locations =
     (if length locations = 0 then Inr ([], [])
      else case outcome of
             MeteoArray entries \<Rightarrow> Inr (process_response now entries locations, [])
           | MeteoOther \<Rightarrow> Inr ([], [])
           | MeteoError message \<Rightarrow> Inr ([], [LogFetchError message]))"

text \<open>
  The two components of what \<open>fetchWeatherDataBatch\<close> returns to its caller: the data
  and the log line.
\<close>

definition batch_data :: "'c meteo_outcome \<Rightarrow> date \<Rightarrow> grid_point list \<Rightarrow> ('c \<times> date) weather list" where
  "batch_data outcome now locations =
     (case fetchWeatherDataBatch outcome now locations of
        Inr (batchData, logged) \<Rightarrow> batchData
      | Inl message \<Rightarrow> [])"

definition batch_log :: "'c meteo_outcome \<Rightarrow> date \<Rightarrow> grid_point list \<Rightarrow> fetch_event list" where
  "batch_log outcome now locations =
     (case fetchWeatherDataBatch outcome now locations of
        Inr (batchData, logged) \<Rightarrow> logged
      | Inl message \<Rightarrow> [])"

text \<open>The sleeps and the requests of a trace, in order.\<close>

definition sleeps :: "fetch_event list \<Rightarrow> nat list" where
  "sleeps trace = concat (map (\<lambda>e. case e of Sleep ms \<Rightarrow> [ms] | _ \<Rightarrow> []) trace)"

definition requests :: "fetch_event list \<Rightarrow> (nat \<times> nat) list" where
  "requests trace = concat (map (\<lambda>e. case e of Request b k \<Rightarrow> [(b, k)] | _ \<Rightarrow> []) trace)"

text \<open>
  The retry loop of one batch, \<open>for (retry = 0; retry < maxRetries; retry++)\<close>, with
  its \<open>try\<close> and \<open>catch\<close>. Attempt \<open>retry\<close> on batch \<open>batchNum\<close> meets the outcome
  \<open>provider batchNum retry\<close>. The state is the list of results so far and the trace.
\<close>

function retry_loop ::
  "(nat \<Rightarrow> nat \<Rightarrow> 'c meteo_outcome) \<Rightarrow> date \<Rightarrow> nat \<Rightarrow> nat \<Rightarrow> grid_point list \<Rightarrow> nat \<Rightarrow> nat
   \<Rightarrow> ('c \<times> date) weather list \<times> fetch_event list
   \<Rightarrow> ('c \<times> date) weather list \<times> fetch_event list" where
  "retry_loop provider now maxRetries batchNum batchLocations retry retryDelay st =
     (if retry < maxRetries then
        case fetchWeatherDataBatch (provider batchNum retry) now batchLocations of
          Inr (batchData, logged) \<Rightarrow>
            if length batchData > 0
            then (fst st @ batchData,
                  snd st @ [Request batchNum retry] @ logged
                    @ [LogBatchCompleted batchNum (length batchData)])
            else retry_loop provider now maxRetries batchNum batchLocations (retry + 1) retryDelay
                   (fst st, snd st @ [Request batchNum retry] @ logged
                              @ [LogBatchFailed batchNum (retry + 1)])
        | Inl message \<Rightarrow>
            let errorMsg = toLowerCase message;
                rate = includes_str errorMsg ''rate limit'' \<or> includes_str errorMsg ''minutely'';
                handled = (if rate then [LogRateLimit batchNum retryDelay, Sleep retryDelay]
                           else [LogBatchError batchNum message]);
                retryDelay' = (if rate then retryDelay * 2 else retryDelay);
                exhausted = (if retry = maxRetries - 1 then [LogExhausted batchNum] else [])
            in retry_loop provider now maxRetries batchNum batchLocations (retry + 1) retryDelay'
                 (fst st, snd st @ [Request batchNum retry] @ handled @ exhausted)
      else st)"
  by pat_completeness auto
termination
  by (relation "measure (\<lambda>(provider, now, maxRetries, batchNum, batchLocations, retry, retryDelay, st).
                  maxRetries - retry)") auto

declare retry_loop.simps [simp del]

text \<open>
  The loop over the batches: the retry loop of the batch, starting with a delay of 60
  seconds, and then, except after the last batch, the wait between batches.
\<close>

function batch_loop ::
  "(nat \<Rightarrow> nat \<Rightarrow> 'c meteo_outcome) \<Rightarrow> date \<Rightarrow> nat \<Rightarrow> nat \<Rightarrow> grid_point list list \<Rightarrow> nat
   \<Rightarrow> ('c \<times> date) weather list \<times> fetch_event list
   \<Rightarrow> ('c \<times> date) weather list \<times> fetch_event list" where
  "batch_loop provider now maxRetries requestDelayMs batches batchNum st =
     (if batchNum < length batches then
        let batchLocations = batches ! batchNum;
            st1 = retry_loop provider now maxRetries batchNum batchLocations 0 60000 st;
            st2 = (if batchNum < length batches - 1
                   then (fst st1, snd st1 @ [Sleep (requestDelayMs * 10)]) else st1)
        in batch_loop provider now maxRetries requestDelayMs batches (batchNum + 1) st2
      else st)"
  by pat_completeness auto
termination
  by (relation "measure (\<lambda>(provider, now, maxRetries, requestDelayMs, batches, batchNum, st).
                  length batches - batchNum)") auto

declare batch_loop.simps [simp del]

text \<open>
  \<open>fetchWeatherDataBatched\<close> returns the results and, here, the trace. With a batch
  size of \<open>0\<close> the partition does not return, and neither does the fetcher.
\<close>

definition fetchWeatherDataBatched ::
  "(nat \<Rightarrow> nat \<Rightarrow> 'c meteo_outcome) \<Rightarrow> date \<Rightarrow> nat \<Rightarrow> nat \<Rightarrow> grid_point list \<Rightarrow> nat
   \<Rightarrow> (('c \<times> date) weather list \<times> fetch_event list) option" where
  "fetchWeatherDataBatched provider now maxRetries requestDelayMs locations batchSize =
     (if length locations = 0 then Some ([], [])
      else case batchArray locations batchSize of
             None \<Rightarrow> None
           | Some batches \<Rightarrow>
               Some (batch_loop provider now maxRetries requestDelayMs batches 0 ([], [])))"

section \<open>The orchestrator (collectors/runAllCollectors.js)\<close>

text \<open>
  One run of a collector returns an exit code or throws. What run number \<open>attempt\<close> of
  the collector of class \<open>c\<close> does is an input of the model, \<open>collector c attempt\<close>.
\<close>

datatype collector_outcome = Exit nat | Throws string

datatype orch_event = Run weather_class nat | Wait nat

text \<open>
  \<open>retryWithBackoff\<close>: attempts \<open>1, \<dots>, maxRetries\<close>; the first attempt that does not
  throw gives the result; after a failed attempt other than the last the loop sleeps
  \<open>baseDelay * 2 ^ (attempt - 1)\<close>; the error of the last attempt is thrown. With
  \<open>maxRetries = 0\<close> the loop body never runs and the function returns \<open>undefined\<close>.
\<close>

function retryWithBackoff ::
  "(nat \<Rightarrow> (string + 'a) \<times> orch_event list) \<Rightarrow> nat \<Rightarrow> nat \<Rightarrow> nat \<Rightarrow> orch_event list
   \<Rightarrow> (string + 'a option) \<times> orch_event list" where
  "retryWithBackoff fn maxRetries baseDelay attempt trace =
     (if attempt \<le> maxRetries then
        case fn attempt of
          (Inr v, events) \<Rightarrow> (Inr (Some v), trace @ events)
        | (Inl err, events) \<Rightarrow>
            if attempt = maxRetries then (Inl err, trace @ events)
            else let delay = baseDelay * 2 ^ (attempt - 1)
                 in retryWithBackoff fn maxRetries baseDelay (attempt + 1)
                      (trace @ events @ [Wait delay])
      else (Inr None, trace))"
  by pat_completeness auto
termination
  by (relation "measure (\<lambda>(fn, maxRetries, baseDelay, attempt, trace). Suc maxRetries - attempt)")
     auto

declare retryWithBackoff.simps [simp del]

definition runCollectorWithRetry ::
  "(weather_class \<Rightarrow> nat \<Rightarrow> collector_outcome) \<Rightarrow> weather_class \<Rightarrow> nat \<Rightarrow> bool \<times> orch_event list" where
  "runCollectorWithRetry collector c maxRetries =
     (case retryWithBackoff
             (\<lambda>attempt. case collector c attempt of
                           Exit exitCode \<Rightarrow>
                             if exitCode \<noteq> 0
                             then (Inl (''Collector returned exit code '' @ string_of_nat exitCode),
                                   [Run c attempt])
                             else (Inr (), [Run c attempt])
                         | Throws message \<Rightarrow> (Inl message, [Run c attempt]))
             maxRetries 5000 1 [] of
        (Inr v, trace) \<Rightarrow> (True, trace)
      | (Inl err, trace) \<Rightarrow> (False, trace))"

definition COLLECTORS :: "(string \<times> weather_class) list" where
  "COLLECTORS = [(''City Weather'', City), (''Grid Weather'', Grid), (''Port Weather'', Port)]"

text \<open>
  The loop of \<open>main\<close> over \<open>COLLECTORS\<close>: each collector runs with the default of three
  attempts; a pause of five seconds follows every collector but the last.
\<close>

fun run_collectors ::
  "(weather_class \<Rightarrow> nat \<Rightarrow> collector_outcome) \<Rightarrow> (string \<times> weather_class) list
   \<Rightarrow> (string \<times> bool) list \<times> orch_event list \<Rightarrow> (string \<times> bool) list \<times> orch_event list" where
  "run_collectors collector [] st = st"
| "run_collectors collector ((nm, c) # rest) (results, trace) =
     (case runCollectorWithRetry collector c 3 of
        (success, events) \<Rightarrow>
          run_collectors collector rest
            (results @ [(nm, success)],
             trace @ events @ (if rest \<noteq> [] then [Wait 5000] else [])))"

text \<open>
  \<open>main\<close> of the orchestrator: the exit code, the per-class report (absent when the
  connection to the store fails, which is fatal) and the trace. \<open>connects\<close> and
  \<open>disconnects\<close> say whether \<open>connectDatabase\<close> and \<open>disconnectDatabase\<close> return.
\<close>

definition main_orchestrator ::
  "bool \<Rightarrow> bool \<Rightarrow> (weather_class \<Rightarrow> nat \<Rightarrow> collector_outcome)
   \<Rightarrow> nat \<times> (string \<times> bool) list option \<times> orch_event list" where
  "main_orchestrator connects disconnects collector =
     (if \<not> connects then (1, None, [])
      else case run_collectors collector COLLECTORS ([], []) of
             (results, trace) \<Rightarrow>
               let successCount = length (filter snd results);
                   totalCount = length results
               in if \<not> disconnects then (1, Some results, trace)
                  else (if successCount = totalCount then 0 else 1, Some results, trace))"

section \<open>Example data\<close>

text \<open>Concrete documents and stores, used to evaluate the model.\<close>

definition example_snapshot :: "string \<Rightarrow> real \<Rightarrow> real \<Rightarrow> nat \<Rightarrow> nat weather" where
  "example_snapshot n la lo w =
     \<lparr>name = n, lat = la, lon = lo,
      coordinates = \<lparr>latitude = la, longitude = lo, elevation = 0\<rparr>, weather_data = w\<rparr>"

definition example_history :: "string \<Rightarrow> date \<Rightarrow> nat weather_doc archived" where
  "example_history n t = archive_copy t 0 (weather_document 0 (example_snapshot n 0 0 0))"

definition empty_db :: "nat db" where
  "empty_db =
     \<lparr>city_weather = [], grid_weather = [], port_weather = [],
      city_weather_history = [], grid_weather_history = [], port_weather_history = []\<rparr>"

definition example_grid_db :: "nat db" where
  "example_grid_db =
     empty_db\<lparr>grid_weather :=
       [weather_document 0 (example_snapshot ''p'' 1 2 3),
        weather_document 0 (example_snapshot ''q'' 5 6 7)]\<rparr>"

definition example_city_db :: "nat db" where
  "example_city_db =
     empty_db\<lparr>city_weather :=
       [weather_document 0 (example_snapshot ''a'' 1 1 1),
        weather_document 0 (example_snapshot ''b'' 2 2 2)]\<rparr>"

definition example_port_snapshot :: "string \<Rightarrow> date \<Rightarrow> port_weather" where
  "example_port_snapshot body t =
     \<lparr>port_name = ''Pelabuhan Sabang'', slug = ''pelabuhan-sabang'', port_coordinates = (5, 95),
      port_weather_data = JStr body, fetched_at = t, status = ''success'', error = None\<rparr>"

definition find_fails :: faults where
  "find_fails c operation = (operation = Find)"

definition example_port :: "nat \<Rightarrow> port_location" where
  "example_port i =
     \<lparr>id_p = ''PORT_'' @ string_of_nat i, name_p = ''Pelabuhan '' @ string_of_nat i,
      lat_p = 0, lon_p = 100, slug_p = ''pelabuhan-'' @ string_of_nat i\<rparr>"

definition example_net :: "nat \<Rightarrow> http_outcome" where
  "example_net i =
     (if i = 2 then TransportError ''timeout of 30000ms exceeded''
      else if i = 5 then HttpResponse 204 JNull
      else if i = 7 then HttpResponse 200 (JStr '''')
      else HttpResponse 200 (JStr ''cuaca''))"

definition example_collector :: "weather_class \<Rightarrow> nat \<Rightarrow> collector_outcome" where
  "example_collector c attempt =
     (case c of
        City \<Rightarrow> Exit 0
      | Grid \<Rightarrow> if attempt = 1 then Throws ''ECONNRESET'' else Exit 0
      | Port \<Rightarrow> Exit 1)"

definition example_point :: "nat \<Rightarrow> grid_point" where
  "example_point i = \<lparr>name_g = ''p'' @ string_of_nat i, lat_g = real i, lon_g = 100\<rparr>"

definition failing_provider :: "nat \<Rightarrow> nat \<Rightarrow> nat meteo_outcome" where
  "failing_provider b k = MeteoError ''timeout of 5000ms exceeded''"


definition example_provider :: "nat \<Rightarrow> nat \<Rightarrow> nat meteo_outcome" where
  "example_provider b k =
     (if b = 1 then MeteoError ''timeout of 5000ms exceeded''
      else if b = 2 \<and> k = 0 then MeteoOther
      else MeteoArray
             [\<lparr>latitude_d = None, longitude_d = None, elevation_d = None, current_d = Some 7\<rparr>,
              \<lparr>latitude_d = None, longitude_d = None, elevation_d = None, current_d = Some 8\<rparr>])"

definition no_faults :: faults where
  "no_faults c operation = False"

text \<open>
  Two time zones: one with a fixed offset of seven hours, as \<open>Asia/Jakarta\<close>, and one
  with the clock changes of \<open>America/New_York\<close> in 1970 (five hours behind UTC, four
  from 26 April, 2 a.m., to 25 October, 2 a.m.).
\<close>

definition jakarta :: time_zone where
  "jakarta = \<lparr>utc_offset = (\<lambda>t. 7 * 3600000), local_offset = (\<lambda>t. 7 * 3600000)\<rparr>"

definition new_york_1970 :: time_zone where
  "new_york_1970 =
     \<lparr>utc_offset = (\<lambda>t. if 115 * msPerDay + 7 * 3600000 \<le> t \<and> t < 297 * msPerDay + 6 * 3600000
                         then - 4 * 3600000 else - 5 * 3600000),
      local_offset = (\<lambda>t. if 115 * msPerDay + 3 * 3600000 \<le> t \<and> t < 297 * msPerDay + 2 * 3600000
                           then - 4 * 3600000 else - 5 * 3600000)\<rparr>"

section \<open>Properties of the helper functions\<close>

lemma slice_chunk: "slice xs i (i + B) = take B (drop i xs)"
  by (simp add: slice_def drop_take)

lemma batch_count_step:
  assumes "0 < (B::nat)" "i < L"
  shows "Suc ((L - (i + B) + B - 1) div B) = (L - i + B - 1) div B"
proof (cases "i + B \<le> L")
  case True
  define a where "a = L - (i + B) + B - 1"
  have "L - i + B - 1 = a + B" using True assms unfolding a_def by linarith
  moreover have "(a + B) div B = Suc (a div B)" using assms by simp
  ultimately show ?thesis unfolding a_def by (simp only:)
next
  case False
  define m where "m = L - i - 1"
  have a: "L - (i + B) + B - 1 = B - 1" using False by simp
  have m: "L - i + B - 1 = m + B" "m < B" using False assms unfolding m_def by linarith+
  have "(m + B) div B = 1" using m(2) by simp
  moreover have "(B - 1) div B = 0" using assms by simp
  ultimately show ?thesis by (simp only: a m(1))
qed

lemma batch_count_ceiling:
  assumes "0 < (B::nat)"
  shows "int ((N + B - 1) div B) = \<lceil>real N / real B\<rceil>"
proof -
  define q where "q = (N + B - 1) div B"
  define r where "r = (N + B - 1) mod B"
  have e: "N + B - 1 = q * B + r" unfolding q_def r_def by simp
  have rb: "r < B" unfolding r_def using assms by simp
  have up: "N \<le> q * B" using e rb assms by linarith
  have lo: "q * B < N + B" using e assms by linarith
  have "real N \<le> real (q * B)" using up by (simp only: of_nat_le_iff)
  then have 1: "real N / real B \<le> real q"
    using assms by (simp add: pos_divide_le_eq)
  have "real (q * B) < real (N + B)" using lo by (simp only: of_nat_less_iff)
  then have "(real q - 1) * real B < real N"
    by (simp add: left_diff_distrib)
  then have 2: "real q - 1 < real N / real B"
    using assms by (simp add: pos_less_divide_eq)
  have "\<lceil>real N / real B\<rceil> = int q"
    by (rule ceiling_unique) (use 1 2 in simp_all)
  then show ?thesis unfolding q_def by simp
qed

text \<open>
  The loop started at index \<open>i\<close> with accumulator \<open>acc\<close> returns, and appends to
  \<open>acc\<close> the chunks of the rest of the array.
\<close>

lemma batchArray_loop_spec:
  assumes "0 < B"
  shows "\<exists>cs. batchArray_loop xs B i acc = Some (acc @ cs)
            \<and> concat cs = drop i xs
            \<and> length cs = (length xs - i + B - 1) div B
            \<and> (\<forall>k < length cs. cs ! k = take B (drop (i + k * B) xs))"
proof (induction "length xs - i" arbitrary: i acc rule: less_induct)
  case less
  show ?case
  proof (cases "i < length xs")
    case False
    then have "batchArray_loop xs B i acc = Some (acc @ [])"
      by (simp add: batchArray_loop.simps)
    moreover have "(length xs - i + B - 1) div B = 0"
      using False assms by simp
    ultimately show ?thesis using False by auto
  next
    case True
    let ?c = "take B (drop i xs)"
    from True assms have "length xs - (i + B) < length xs - i" by linarith
    from less[OF this, of "acc @ [?c]"] obtain cs where
      run: "batchArray_loop xs B (i + B) (acc @ [?c]) = Some ((acc @ [?c]) @ cs)"
      and cat: "concat cs = drop (i + B) xs"
      and len: "length cs = (length xs - (i + B) + B - 1) div B"
      and nth: "\<forall>k < length cs. cs ! k = take B (drop (i + B + k * B) xs)"
      by blast
    have r: "batchArray_loop xs B i acc = Some (acc @ (?c # cs))"
      using True run by (subst batchArray_loop.simps) (simp add: slice_chunk)
    have "concat (?c # cs) = take B (drop i xs) @ drop B (drop i xs)"
      using cat by (simp add: add.commute)
    also have "\<dots> = drop i xs"
      by (rule append_take_drop_id)
    finally have c: "concat (?c # cs) = drop i xs" .
    have l: "length (?c # cs) = (length xs - i + B - 1) div B"
      using len batch_count_step[OF assms True] by simp
    have n: "\<forall>k < length (?c # cs). (?c # cs) ! k = take B (drop (i + k * B) xs)"
    proof (intro allI impI)
      fix k assume "k < length (?c # cs)"
      then show "(?c # cs) ! k = take B (drop (i + k * B) xs)"
        using nth by (cases k) (simp_all add: add.assoc)
    qed
    from r c l n show ?thesis by blast
  qed
qed

text \<open>
  Claim C7. For every list of \<open>N\<close> locations and every batch size \<open>B > 0\<close>,
  \<open>batchArray\<close> returns \<open>\<lceil>N / B\<rceil>\<close> batches; batch \<open>k\<close> is the contiguous run of at most
  \<open>B\<close> elements that starts at index \<open>k * B\<close>, so the input order is preserved; and the
  concatenation of the batches, in order, is the input list.
\<close>

theorem batchArray_partition:
  assumes "0 < B"
  shows "\<exists>bs. batchArray xs B = Some bs
            \<and> int (length bs) = \<lceil>real (length xs) / real B\<rceil>
            \<and> (\<forall>k < length bs. bs ! k = take B (drop (k * B) xs))
            \<and> concat bs = xs"
proof -
  from batchArray_loop_spec[OF assms, of xs 0 "[]"] obtain cs where
    run: "batchArray_loop xs B 0 [] = Some cs"
    and cat: "concat cs = xs"
    and len: "length cs = (length xs + B - 1) div B"
    and nth: "\<forall>k < length cs. cs ! k = take B (drop (k * B) xs)"
    by auto
  have "int (length cs) = \<lceil>real (length xs) / real B\<rceil>"
    using len batch_count_ceiling[OF assms, of "length xs"] by simp
  with run cat nth show ?thesis
    unfolding batchArray_def by blast
qed

theorem batchArray_partition_witness:
  "(0::nat) < 2
   \<and> batchArray [10, 20, 30, 40, 50 :: nat] 2 = Some [[10, 20], [30, 40], [50]]
   \<and> int (length [[10, 20], [30, 40], [50 :: nat]]) = \<lceil>real (length [10, 20, 30, 40, 50 :: nat]) / real (2::nat)\<rceil>
   \<and> concat [[10, 20], [30, 40], [50 :: nat]] = [10, 20, 30, 40, 50]"
proof -
  have pos: "(0::nat) < 2" by simp
  have run: "batchArray [10, 20, 30, 40, 50 :: nat] 2 = Some [[10, 20], [30, 40], [50]]"
    by (simp add: batchArray_def batchArray_loop.simps slice_def)
  from batchArray_partition[OF pos, of "[10, 20, 30, 40, 50 :: nat]"] run
  have "int (length [[10, 20], [30, 40], [50 :: nat]]) = \<lceil>real (length [10, 20, 30, 40, 50 :: nat]) / real (2::nat)\<rceil>"
    by auto
  with pos run show ?thesis by simp
qed

subsection \<open>The freshness gate\<close>

lemma bit_length_bounds:
  "0 < n \<Longrightarrow> 2 ^ (bit_length n - 1) \<le> n \<and> n < 2 ^ bit_length n \<and> 0 < bit_length n"
proof (induction n rule: bit_length.induct)
  case (1 n)
  show ?case
  proof (cases "n div 2 = 0")
    case True
    with 1(2) have "n = 1" by (simp add: div_eq_0_iff) 
    then show ?thesis by (simp add: bit_length.simps)
  next
    case False
    then have pos: "0 < n div 2" by simp
    from 1(2) have n0: "n \<noteq> 0" by simp
    from 1(1)[OF n0 pos] have
      lo: "2 ^ (bit_length (n div 2) - 1) \<le> n div 2" and
      hi: "n div 2 < 2 ^ bit_length (n div 2)" and
      p: "0 < bit_length (n div 2)" by simp_all
    have bl: "bit_length n = bit_length (n div 2) + 1"
      using n0 by (subst bit_length.simps) simp
    have "(2::nat) ^ bit_length (n div 2) = 2 * 2 ^ (bit_length (n div 2) - 1)"
      using p by (cases "bit_length (n div 2)") simp_all
    with lo have a: "(2::nat) ^ bit_length (n div 2) \<le> n" by linarith
    from hi have b: "n < 2 * 2 ^ bit_length (n div 2)" by linarith
    from a b show ?thesis unfolding bl by simp
  qed
qed

lemma round_half_even_ge:
  assumes "0 < b" and "K * b \<le> a"
  shows "K \<le> round_half_even a b"
proof -
  from assms have "K \<le> a div b"
    by (simp add: less_eq_div_iff_mult_less_eq)
  moreover have "a div b \<le> round_half_even a b"
    by (simp add: round_half_even_def Let_def)
  ultimately show ?thesis by simp
qed


lemma binary_exponent_lower:
  assumes "0 < a" and "0 < b"
  shows "if 0 \<le> binary_exponent a b then b * 2 ^ nat (binary_exponent a b) \<le> a
         else b \<le> a * 2 ^ nat (- binary_exponent a b)"
proof -
  define la where "la = bit_length a"
  define lb where "lb = bit_length b"
  from bit_length_bounds[OF assms(1)] have a: "2 ^ (la - 1) \<le> a" "0 < la"
    unfolding la_def by simp_all
  from bit_length_bounds[OF assms(2)] have b: "b < 2 ^ lb" "0 < lb"
    unfolding lb_def by simp_all
  define k where "k = int la - int lb"
  show ?thesis
  proof (cases "if 0 \<le> k then b * 2 ^ nat k \<le> a else b \<le> a * 2 ^ nat (- k)")
    case True
    then have "binary_exponent a b = k"
      unfolding binary_exponent_def k_def la_def lb_def by (simp add: Let_def)
    with True show ?thesis by simp
  next
    case False
    then have e: "binary_exponent a b = k - 1"
      unfolding binary_exponent_def k_def la_def lb_def by (simp add: Let_def)
    show ?thesis
    proof (cases "0 \<le> k - 1")
      case True
      then have lt: "lb < la" unfolding k_def by simp
      then have n: "nat (k - 1) = la - 1 - lb" unfolding k_def by simp
      have "b * 2 ^ (la - 1 - lb) \<le> 2 ^ lb * 2 ^ (la - 1 - lb)"
        using b(1) by simp
      also have "\<dots> = 2 ^ (la - 1)"
        using lt by (simp flip: power_add)
      finally have "b * 2 ^ (la - 1 - lb) \<le> a" using a(1) by simp
      with True e n show ?thesis by simp
    next
      case neg: False
      then have le: "la \<le> lb" unfolding k_def by simp
      then have n: "nat (- (k - 1)) = lb + 1 - la" unfolding k_def by simp
      have "(2::nat) ^ lb = 2 ^ (la - 1) * 2 ^ (lb + 1 - la)"
        using le a(2) by (simp flip: power_add)
      also have "\<dots> \<le> a * 2 ^ (lb + 1 - la)"
        using a(1) by simp
      finally have "b \<le> a * 2 ^ (lb + 1 - la)" using b(1) by simp
      with neg e n show ?thesis by simp
    qed
  qed
qed

text \<open>The significand of a rounded quotient has at least 53 bits.\<close>

lemma significand_ge:
  assumes "0 < a" and "0 < b" and "s = binary_exponent a b - 52"
  shows "0 \<le> s \<Longrightarrow> 2 ^ 52 \<le> round_half_even a (b * 2 ^ nat s)"
    and "s < 0 \<Longrightarrow> 2 ^ 52 \<le> round_half_even (a * 2 ^ nat (- s)) b"
proof -
  define E where "E = binary_exponent a b"
  note low = binary_exponent_lower[OF assms(1,2), folded E_def]
  have s: "s = E - 52" using assms(3) E_def by simp
  {
    assume "0 \<le> s"
    then have E: "0 \<le> E" "nat E = 52 + nat s" using s by simp_all
    from low E have "b * 2 ^ (52 + nat s) \<le> a" by simp
    then have "2 ^ 52 * (b * 2 ^ nat s) \<le> a" by (simp add: power_add mult_ac)
    then show "2 ^ 52 \<le> round_half_even a (b * 2 ^ nat s)"
      using assms(2) by (intro round_half_even_ge) simp_all
  }
  {
    assume neg: "s < 0"
    have "2 ^ 52 * b \<le> a * 2 ^ nat (- s)"
    proof (cases "0 \<le> E")
      case True
      then have n: "nat E + nat (- s) = 52" using s neg by simp
      from low True have "b * 2 ^ nat E \<le> a" by simp
      then have "b * 2 ^ nat E * 2 ^ nat (- s) \<le> a * 2 ^ nat (- s)" by simp
      then have "b * 2 ^ (nat E + nat (- s)) \<le> a * 2 ^ nat (- s)"
        by (simp add: power_add mult_ac)
      then show ?thesis unfolding n by (simp add: mult_ac)
    next
      case False
      then have n: "nat (- s) = nat (- E) + 52" using s by simp
      from low False have "b \<le> a * 2 ^ nat (- E)" by simp
      then have "b * 2 ^ 52 \<le> a * 2 ^ nat (- E) * 2 ^ 52" by simp
      then show ?thesis unfolding n by (simp add: power_add mult_ac)
    qed
    then show "2 ^ 52 \<le> round_half_even (a * 2 ^ nat (- s)) b"
      using assms(2) by (intro round_half_even_ge) simp_all
  }
qed


lemma nearest_double_exceeds:
  assumes "n < 2 ^ 31" and "n * 3600000 < a"
  shows "real n < nearest_double a 3600000"
proof -
  from assms(2) have a: "0 < a" by simp
  define s where "s = binary_exponent a 3600000 - 52"
  note sig = significand_ge[OF a _ s_def]
  show ?thesis
  proof (cases "0 \<le> s")
    case True
    from sig(1)[OF _ True] have "2 ^ 52 \<le> round_half_even a (3600000 * 2 ^ nat s)" by simp
    then have "2 ^ 52 * 1 \<le> round_half_even a (3600000 * 2 ^ nat s) * 2 ^ nat s"
      by (intro mult_le_mono) simp_all
    with assms(1) have "n < round_half_even a (3600000 * 2 ^ nat s) * 2 ^ nat s" by simp
    then have "real n < real (round_half_even a (3600000 * 2 ^ nat s) * 2 ^ nat s)"
      by (simp only: of_nat_less_iff)
    with True a show ?thesis
      unfolding nearest_double_def s_def by (simp add: Let_def)
  next
    case False
    define t where "t = nat (- s)"
    define M where "M = round_half_even (a * 2 ^ t) 3600000"
    from False have neg: "s < 0" by simp
    have val: "nearest_double a 3600000 = real M / 2 ^ t"
      using False a unfolding nearest_double_def M_def t_def s_def by (simp add: Let_def)
    have "n * 2 ^ t < M"
    proof (cases "22 \<le> t")
      case True
      then have "(2::nat) ^ 22 \<le> 2 ^ t" by (intro power_increasing) simp_all
      then have b: "3600000 \<le> (2::nat) ^ t" by simp
      from assms(2) have "n * 3600000 + 1 \<le> a" by simp
      then have "(n * 3600000 + 1) * 2 ^ t \<le> a * 2 ^ t" by (intro mult_le_mono) simp_all
      then have "n * 3600000 * 2 ^ t + 2 ^ t \<le> a * 2 ^ t" by (simp add: algebra_simps)
      with b have "n * 3600000 * 2 ^ t + 3600000 \<le> a * 2 ^ t" by linarith
      then have "(n * 2 ^ t + 1) * 3600000 \<le> a * 2 ^ t" by (simp add: algebra_simps)
      then have "n * 2 ^ t + 1 \<le> M"
        unfolding M_def by (intro round_half_even_ge) simp_all
      then show ?thesis by simp
    next
      case small: False
      then have "t \<le> 21" by simp
      then have "(2::nat) ^ t \<le> 2 ^ 21" by (intro power_increasing) simp_all
      with assms(1) have "n * 2 ^ t < 2 ^ 31 * 2 ^ 21"
        by (intro mult_less_le_imp_less) simp_all
      moreover from sig(2)[OF _ neg] have "2 ^ 52 \<le> M" unfolding M_def t_def by simp
      ultimately show ?thesis by simp
    qed
    then have "real (n * 2 ^ t) < real M" by (simp only: of_nat_less_iff)
    then have "real n < real M / 2 ^ t" by (simp add: pos_less_divide_eq)
    with val show ?thesis by simp
  qed
qed

lemma number_sub_exceeds:
  assumes "int m < x - y" and "m < 2 ^ 53"
  shows "int m < number_sub x y"
proof -
  define a where "a = nat \<bar>x - y\<bar>"
  from assms(1) have pos: "0 < x - y" by simp
  show ?thesis
  proof (cases "a \<le> 2 ^ 53")
    case True
    then have "number_sub x y = x - y"
      unfolding number_sub_def a_def by (simp add: Let_def)
    with assms(1) show ?thesis by simp
  next
    case False
    define s where "s = bit_length a - 53"
    from False have a: "0 < a" "2 ^ 53 < a" by simp_all
    from bit_length_bounds[OF a(1)] have lo: "2 ^ (bit_length a - 1) \<le> a"
      and hi: "a < 2 ^ bit_length a" by simp_all
    from a(2) hi have "(2::nat) ^ 53 < 2 ^ bit_length a" by simp
    then have "53 < bit_length a" by (simp only: power_strict_increasing_iff)
    then have e: "bit_length a - 1 = 52 + s" unfolding s_def by simp
    from lo have "2 ^ 52 * 2 ^ s \<le> a" unfolding e by (simp add: power_add)
    then have "2 ^ 52 \<le> round_half_even a (2 ^ s)"
      by (intro round_half_even_ge) simp_all
    then have "2 ^ 52 * 2 ^ s \<le> round_half_even a (2 ^ s) * 2 ^ s"
      by (intro mult_le_mono) simp_all
    moreover have "(2::nat) ^ 53 \<le> 2 ^ 52 * 2 ^ s"
    proof -
      from \<open>53 < bit_length a\<close> have "1 \<le> s" unfolding s_def by simp
      then have "(2::nat) ^ 1 \<le> 2 ^ s" by (intro power_increasing) simp_all
      then show ?thesis by simp
    qed
    ultimately have "m < round_half_even a (2 ^ s) * 2 ^ s" using assms(2) by linarith
    then have "int m < int (round_half_even a (2 ^ s) * 2 ^ s)" by (simp only: of_nat_less_iff)
    moreover have "number_sub x y = int (round_half_even a (2 ^ s) * 2 ^ s)"
      using False pos unfolding number_sub_def a_def s_def by (simp add: Let_def)
    ultimately show ?thesis by simp
  qed
qed

lemma isDataFresh_exceeds:
  assumes "n < 2 ^ 31" and "int n * 3600000 < now - t"
  shows "\<not> isDataFresh now (Some t) (real n)"
proof -
  have "n * 3600000 < 2 ^ 31 * 3600000" using assms(1) by simp
  then have m: "n * 3600000 < 2 ^ 53" by simp
  from assms(2) have "int (n * 3600000) < now - t" by simp
  from number_sub_exceeds[OF this m] have d: "int (n * 3600000) < number_sub now t" .
  then have pos: "\<not> number_sub now t < 0" by simp
  from d have "n * 3600000 < nat (number_sub now t)" by simp
  from nearest_double_exceeds[OF assms(1) this]
  have "real n < number_div (number_sub now t) 3600000"
    using pos by (simp add: number_div_def)
  then show ?thesis
    by (simp add: isDataFresh_def hoursSince_def)
qed

text \<open>
  Claim C4, amended. \<open>isDataFresh\<close> returns false when \<open>fetchedAt\<close> is absent, and false
  whenever the age it computes, the elapsed milliseconds divided by \<open>3600000\<close> as a
  double, exceeds \<open>maxAgeHours\<close>. For a threshold of a whole number of hours below
  \<open>2 ^ 31\<close> that is whenever the time elapsed since \<open>fetchedAt\<close> exceeds \<open>maxAgeHours\<close>.
  The function has no state to read or to change besides the clock: its result is
  determined by the difference between the clock reading and the timestamp, and by the
  threshold.
\<close>

theorem isDataFresh_gate:
  "\<not> isDataFresh now None maxAgeHours
   \<and> (\<forall>age. hoursSince now (Some t) = Some age \<longrightarrow> maxAgeHours < age
          \<longrightarrow> \<not> isDataFresh now (Some t) maxAgeHours)
   \<and> (n < 2 ^ 31 \<longrightarrow> real n < real_of_int (now - t) / 3600000
          \<longrightarrow> \<not> isDataFresh now (Some t) (real n))
   \<and> (now - t = now' - t'
          \<longrightarrow> isDataFresh now (Some t) maxAgeHours = isDataFresh now' (Some t') maxAgeHours)"
proof (intro conjI allI impI)
  show "\<not> isDataFresh now None maxAgeHours"
    by (simp add: isDataFresh_def)
next
  fix age
  assume "hoursSince now (Some t) = Some age" and "maxAgeHours < age"
  then show "\<not> isDataFresh now (Some t) maxAgeHours"
    by (simp add: isDataFresh_def)
next
  assume n: "n < 2 ^ 31" and "real n < real_of_int (now - t) / 3600000"
  then have "real_of_int (int n * 3600000) < real_of_int (now - t)"
    by (simp add: pos_less_divide_eq)
  then have "int n * 3600000 < now - t"
    by (simp only: of_int_less_iff)
  with n show "\<not> isDataFresh now (Some t) (real n)"
    by (rule isDataFresh_exceeds)
next
  assume "now - t = now' - t'"
  then show "isDataFresh now (Some t) maxAgeHours = isDataFresh now' (Some t') maxAgeHours"
    by (simp add: isDataFresh_def hoursSince_def number_sub_def)
qed

text \<open>
  Data fetched seven hours ago against a threshold of six hours: the computed age is \<open>7\<close>.
\<close>

theorem isDataFresh_gate_witness:
  "hoursSince 25200000 (Some 0) = Some 7 \<and> (6::real) < 7
   \<and> (6::nat) < 2 ^ 31 \<and> real (6::nat) < real_of_int (25200000 - 0) / 3600000
   \<and> (25200000::int) - 0 = 25200500 - 500
   \<and> \<not> isDataFresh 25200000 (Some 0) 6
   \<and> \<not> isDataFresh 25200000 (Some 0) (real (6::nat))
   \<and> isDataFresh 25200000 (Some 0) 6 = isDataFresh 25200500 (Some 500) 6"
proof -
  have age: "hoursSince 25200000 (Some 0) = Some 7"
    by (simp add: hoursSince_def number_sub_def number_div_def nearest_double_def
        binary_exponent_def bit_length.simps round_half_even_def Let_def)
  have six: "(6::real) < 7" by simp
  have small: "(6::nat) < 2 ^ 31" by simp
  have exceeds: "real (6::nat) < real_of_int (25200000 - 0) / 3600000" by simp
  have delta: "(25200000::int) - 0 = 25200500 - 500" by simp
  note gate = isDataFresh_gate[where now = 25200000 and t = 0 and maxAgeHours = 6 and n = 6
      and now' = 25200500 and t' = 500]
  from gate[THEN conjunct2, THEN conjunct1, rule_format, OF age six]
  have a: "\<not> isDataFresh 25200000 (Some 0) 6" .
  from gate[THEN conjunct2, THEN conjunct2, THEN conjunct1, rule_format, OF small exceeds]
  have b: "\<not> isDataFresh 25200000 (Some 0) (real (6::nat))" .
  from gate[THEN conjunct2, THEN conjunct2, THEN conjunct2, rule_format, OF delta]
  have c: "isDataFresh 25200000 (Some 0) 6 = isDataFresh 25200500 (Some 500) 6" .
  from age six small exceeds delta a b c show ?thesis
    by (intro conjI)
qed

text \<open>
  The claim as stated fails for a threshold that is not a whole number of hours. One
  millisecond after \<open>fetchedAt\<close>, with the threshold the double nearest to \<open>1 / 3600000\<close>
  (\<open>2.7777777777777776e-07\<close>, which lies below \<open>1 / 3600000\<close>), the elapsed time exceeds
  the threshold; the computed age is that same double, and the data counts as fresh.
\<close>

theorem isDataFresh_gate_counterexample:
  "isDataFresh 1 (Some 0) (5247073869855161 / 2 ^ 74)
   \<and> (5247073869855161 / 2 ^ 74 :: real) < real_of_int (1 - 0) / 3600000"
  by (simp add: isDataFresh_def hoursSince_def number_sub_def number_div_def
      nearest_double_def binary_exponent_def bit_length.simps round_half_even_def Let_def)

section \<open>Retention cleanup\<close>

lemma setDate_getDate_minus_eq:
  "setDate_getDate_minus zone d n = UTC zone (LocalTime zone d - n * msPerDay)"
proof -
  have "MakeDate (Day t - n) (TimeWithinDay t) = t - n * msPerDay" for t
    by (simp add: MakeDate_def Day_def TimeWithinDay_def left_diff_distrib)
  then show ?thesis
    by (simp add: setDate_getDate_minus_def Let_def)
qed

lemma deleteManyHistory_ok:
  "\<not> fails c DeleteManyHistory \<Longrightarrow>
   deleteManyHistory fails c cutoff h =
     (Inr (length (filter (\<lambda>r. archived_at r < cutoff) h)),
      filter (\<lambda>r. \<not> archived_at r < cutoff) h)"
  by (simp add: deleteManyHistory_def deleteMany_def)

lemma cleanupOldHistory_ok:
  assumes "\<forall>c. \<not> fails c DeleteManyHistory"
      and "cutoff = setDate_getDate_minus zone now n"
  shows "cleanupOldHistory zone fails now (Some n) db =
     (Inr \<lparr>city = length (filter (\<lambda>r. archived_at r < cutoff) (city_weather_history db)),
           grid = length (filter (\<lambda>r. archived_at r < cutoff) (grid_weather_history db)),
           port = length (filter (\<lambda>r. archived_at r < cutoff) (port_weather_history db)),
           total = length (filter (\<lambda>r. archived_at r < cutoff) (city_weather_history db))
                 + length (filter (\<lambda>r. archived_at r < cutoff) (grid_weather_history db))
                 + length (filter (\<lambda>r. archived_at r < cutoff) (port_weather_history db))\<rparr>,
      db\<lparr>city_weather_history := filter (\<lambda>r. \<not> archived_at r < cutoff) (city_weather_history db),
         grid_weather_history := filter (\<lambda>r. \<not> archived_at r < cutoff) (grid_weather_history db),
         port_weather_history := filter (\<lambda>r. \<not> archived_at r < cutoff) (port_weather_history db)\<rparr>)"
  using assms by (simp add: cleanupOldHistory_def deleteManyHistory_ok Let_def)

lemma cleanupOldHistory_default:
  "cleanupOldHistory zone fails now None db = cleanupOldHistory zone fails now (Some 90) db"
  by (simp add: cleanupOldHistory_def)

lemma filter_kept_none: "filter P (filter (\<lambda>r. \<not> P r) xs) = []"
  by (induction xs) auto

lemma cleanupOldHistory_twice:
  assumes "\<forall>c. \<not> fails c DeleteManyHistory"
      and "cleanupOldHistory zone fails now (Some n) db = (r1, db1)"
  shows "cleanupOldHistory zone fails now (Some n) db1 =
           (Inr \<lparr>city = 0, grid = 0, port = 0, total = 0\<rparr>, db1)"
proof -
  define cutoff where "cutoff = setDate_getDate_minus zone now n"
  note run = cleanupOldHistory_ok[where fails = fails and cutoff = cutoff and zone = zone
      and now = now and n = n]
  from assms cutoff_def have db1: "db1 =
      db\<lparr>city_weather_history := filter (\<lambda>r. \<not> archived_at r < cutoff) (city_weather_history db),
         grid_weather_history := filter (\<lambda>r. \<not> archived_at r < cutoff) (grid_weather_history db),
         port_weather_history := filter (\<lambda>r. \<not> archived_at r < cutoff) (port_weather_history db)\<rparr>"
    by (simp add: run)
  show ?thesis
    unfolding db1 using assms(1) cutoff_def
    by (simp add: run filter_kept_none)
qed

text \<open>
  Claim C5. When the three deletions succeed, \<open>cleanupOldHistory daysToKeep\<close> takes as
  cutoff the instant \<open>daysToKeep\<close> days before now: the instant at which the local time
  is the local time of now, \<open>daysToKeep\<close> days earlier. Where the offset of the time
  zone then is the offset now, so in every zone with a fixed offset, the cutoff is
  \<open>daysToKeep\<close> times 24 hours before now. The call leaves in each of the three history
  collections exactly the records whose \<open>archived_at\<close> is not before the cutoff, reports
  for each class the number of its records that were before the cutoff, and reports as
  total the sum of the three counts. The current collections are not touched. With
  \<open>daysToKeep = 90\<close>, and offsets that differ by less than ten days, the cutoff lies after
  day \<open>-100\<close> and not after day \<open>-50\<close>: a record of day \<open>-100\<close> is deleted, and records
  of day \<open>-50\<close> and day \<open>-10\<close> are kept.
\<close>

theorem cleanupOldHistory_contract:
  assumes "\<forall>c. \<not> fails c DeleteManyHistory"
  shows "\<exists>r db' cutoff. cleanupOldHistory zone fails now (Some daysToKeep) db = (Inr r, db')
     \<and> cutoff = UTC zone (LocalTime zone now - daysToKeep * msPerDay)
     \<and> (local_offset zone (LocalTime zone now - daysToKeep * msPerDay) = utc_offset zone now
          \<longrightarrow> cutoff = now - daysToKeep * msPerDay)
     \<and> city_weather_history db' =
          filter (\<lambda>h. \<not> archived_at h < cutoff) (city_weather_history db)
     \<and> grid_weather_history db' =
          filter (\<lambda>h. \<not> archived_at h < cutoff) (grid_weather_history db)
     \<and> port_weather_history db' =
          filter (\<lambda>h. \<not> archived_at h < cutoff) (port_weather_history db)
     \<and> city r = length (filter (\<lambda>h. archived_at h < cutoff) (city_weather_history db))
     \<and> grid r = length (filter (\<lambda>h. archived_at h < cutoff) (grid_weather_history db))
     \<and> port r = length (filter (\<lambda>h. archived_at h < cutoff) (port_weather_history db))
     \<and> total r = city r + grid r + port r
     \<and> city_weather db' = city_weather db \<and> grid_weather db' = grid_weather db
     \<and> port_weather db' = port_weather db
     \<and> (daysToKeep = 90
          \<and> \<bar>utc_offset zone now - local_offset zone (LocalTime zone now - 90 * msPerDay)\<bar>
               < 10 * msPerDay
          \<longrightarrow> now - 100 * msPerDay < cutoff \<and> cutoff \<le> now - 50 * msPerDay
              \<and> cutoff \<le> now - 10 * msPerDay)"
proof -
  define cutoff where "cutoff = setDate_getDate_minus zone now daysToKeep"
  have c: "cutoff = UTC zone (LocalTime zone now - daysToKeep * msPerDay)"
    unfolding cutoff_def by (rule setDate_getDate_minus_eq)
  have fixed: "local_offset zone (LocalTime zone now - daysToKeep * msPerDay) = utc_offset zone now
      \<longrightarrow> cutoff = now - daysToKeep * msPerDay"
    unfolding c by (simp add: UTC_def LocalTime_def)
  have scenario: "daysToKeep = 90
          \<and> \<bar>utc_offset zone now - local_offset zone (LocalTime zone now - 90 * msPerDay)\<bar>
               < 10 * msPerDay
          \<longrightarrow> now - 100 * msPerDay < cutoff \<and> cutoff \<le> now - 50 * msPerDay
              \<and> cutoff \<le> now - 10 * msPerDay"
    unfolding c by (auto simp: UTC_def LocalTime_def msPerDay_def)
  have "cleanupOldHistory zone fails now (Some daysToKeep) db =
     (Inr \<lparr>city = length (filter (\<lambda>r. archived_at r < cutoff) (city_weather_history db)),
           grid = length (filter (\<lambda>r. archived_at r < cutoff) (grid_weather_history db)),
           port = length (filter (\<lambda>r. archived_at r < cutoff) (port_weather_history db)),
           total = length (filter (\<lambda>r. archived_at r < cutoff) (city_weather_history db))
                 + length (filter (\<lambda>r. archived_at r < cutoff) (grid_weather_history db))
                 + length (filter (\<lambda>r. archived_at r < cutoff) (port_weather_history db))\<rparr>,
      db\<lparr>city_weather_history := filter (\<lambda>r. \<not> archived_at r < cutoff) (city_weather_history db),
         grid_weather_history := filter (\<lambda>r. \<not> archived_at r < cutoff) (grid_weather_history db),
         port_weather_history := filter (\<lambda>r. \<not> archived_at r < cutoff) (port_weather_history db)\<rparr>)"
    using assms cutoff_def
    by (rule cleanupOldHistory_ok[where fails = fails and cutoff = cutoff and zone = zone
          and now = now and n = daysToKeep])
  then show ?thesis
    using c fixed scenario by simp
qed

text \<open>
  The scenario of the specification in a zone whose clocks change between the cutoff and
  now: history records archived 100, 50 and 10 days before now, one archived 90 days
  less half an hour before now, and \<open>daysToKeep = 90\<close>. The cutoff is an hour less than
  90 times 24 hours before now; the record of day \<open>-100\<close> and the record half an hour
  after day \<open>-90\<close> are deleted, the other two stay. In the zone with a fixed offset the
  cutoff is 90 times 24 hours before now.
\<close>

theorem cleanupOldHistory_contract_witness:
  "(\<forall>c. \<not> no_faults c DeleteManyHistory)
   \<and> \<bar>utc_offset new_york_1970 (200 * msPerDay)
        - local_offset new_york_1970 (LocalTime new_york_1970 (200 * msPerDay) - 90 * msPerDay)\<bar>
       < 10 * msPerDay
   \<and> cleanupOldHistory new_york_1970 no_faults (200 * msPerDay) (Some 90)
        (empty_db\<lparr>city_weather_history :=
            [example_history ''a'' (100 * msPerDay), example_history ''d'' (110 * msPerDay + 1800000),
             example_history ''b'' (150 * msPerDay), example_history ''c'' (190 * msPerDay)]\<rparr>)
     = (Inr \<lparr>city = 2, grid = 0, port = 0, total = 2\<rparr>,
        empty_db\<lparr>city_weather_history :=
            [example_history ''b'' (150 * msPerDay), example_history ''c'' (190 * msPerDay)]\<rparr>)
   \<and> UTC new_york_1970 (LocalTime new_york_1970 (200 * msPerDay) - 90 * msPerDay)
       = 110 * msPerDay + 3600000
   \<and> 200 * msPerDay - 100 * msPerDay < 110 * msPerDay + 3600000
   \<and> 110 * msPerDay + 3600000 \<le> 200 * msPerDay - 50 * msPerDay
   \<and> local_offset jakarta (LocalTime jakarta (200 * msPerDay) - 90 * msPerDay)
       = utc_offset jakarta (200 * msPerDay)
   \<and> UTC jakarta (LocalTime jakarta (200 * msPerDay) - 90 * msPerDay)
       = 200 * msPerDay - 90 * msPerDay"
proof -
  let ?db = "empty_db\<lparr>city_weather_history :=
            [example_history ''a'' (100 * msPerDay), example_history ''d'' (110 * msPerDay + 1800000),
             example_history ''b'' (150 * msPerDay), example_history ''c'' (190 * msPerDay)]\<rparr>"
  have ok: "\<forall>c. \<not> no_faults c DeleteManyHistory"
    by (simp add: no_faults_def)
  have near: "\<bar>utc_offset new_york_1970 (200 * msPerDay)
        - local_offset new_york_1970 (LocalTime new_york_1970 (200 * msPerDay) - 90 * msPerDay)\<bar>
       < 10 * msPerDay"
    by (simp add: new_york_1970_def LocalTime_def msPerDay_def)
  have cut: "UTC new_york_1970 (LocalTime new_york_1970 (200 * msPerDay) - 90 * msPerDay)
       = 110 * msPerDay + 3600000"
    by (simp add: new_york_1970_def LocalTime_def UTC_def msPerDay_def)
  have run: "cleanupOldHistory new_york_1970 no_faults (200 * msPerDay) (Some 90) ?db
     = (Inr \<lparr>city = 2, grid = 0, port = 0, total = 2\<rparr>,
        empty_db\<lparr>city_weather_history :=
            [example_history ''b'' (150 * msPerDay), example_history ''c'' (190 * msPerDay)]\<rparr>)"
    by (simp add: cleanupOldHistory_def setDate_getDate_minus_eq cut deleteManyHistory_def
        deleteMany_def no_faults_def empty_db_def example_history_def archive_copy_def)
       (simp add: msPerDay_def)
  from cleanupOldHistory_contract[where fails = no_faults and zone = new_york_1970
      and now = "200 * msPerDay" and daysToKeep = 90 and db = ?db] ok near
  have bounds: "200 * msPerDay - 100 * msPerDay < 110 * msPerDay + 3600000
      \<and> 110 * msPerDay + 3600000 \<le> 200 * msPerDay - 50 * msPerDay"
    unfolding cut by auto
  have same: "local_offset jakarta (LocalTime jakarta (200 * msPerDay) - 90 * msPerDay)
       = utc_offset jakarta (200 * msPerDay)"
    by (simp add: jakarta_def)
  from cleanupOldHistory_contract[where fails = no_faults and zone = jakarta
      and now = "200 * msPerDay" and daysToKeep = 90 and db = ?db] ok same
  have fixed: "UTC jakarta (LocalTime jakarta (200 * msPerDay) - 90 * msPerDay)
       = 200 * msPerDay - 90 * msPerDay"
    by auto
  from ok near run cut bounds same fixed show ?thesis
    by (intro conjI) simp_all
qed

text \<open>
  Claim C6. For every store, every time zone and every \<open>daysToKeep\<close> (given or
  defaulted), when the deletions succeed, a second run of \<open>cleanupOldHistory\<close> with the
  same cutoff on the store left by the first run deletes no record and leaves the store
  unchanged.
\<close>

theorem cleanupOldHistory_idempotent:
  assumes "\<forall>c. \<not> fails c DeleteManyHistory"
      and "cleanupOldHistory zone fails now daysToKeep db = (r1, db1)"
  shows "cleanupOldHistory zone fails now daysToKeep db1 =
           (Inr \<lparr>city = 0, grid = 0, port = 0, total = 0\<rparr>, db1)"
proof (cases daysToKeep)
  case None
  with assms(2) have "cleanupOldHistory zone fails now (Some 90) db = (r1, db1)"
    by (simp only: cleanupOldHistory_default)
  from cleanupOldHistory_twice[OF assms(1) this] None show ?thesis
    by (simp only: cleanupOldHistory_default)
next
  case (Some n)
  with assms(2) have "cleanupOldHistory zone fails now (Some n) db = (r1, db1)"
    by simp
  from cleanupOldHistory_twice[OF assms(1) this] Some show ?thesis
    by simp
qed

theorem cleanupOldHistory_idempotent_witness:
  "(\<forall>c. \<not> no_faults c DeleteManyHistory)
   \<and> cleanupOldHistory jakarta no_faults (200 * msPerDay) (Some 90)
        (empty_db\<lparr>city_weather_history :=
            [example_history ''a'' (100 * msPerDay), example_history ''b'' (150 * msPerDay)]\<rparr>)
     = (Inr \<lparr>city = 1, grid = 0, port = 0, total = 1\<rparr>,
        empty_db\<lparr>city_weather_history := [example_history ''b'' (150 * msPerDay)]\<rparr>)
   \<and> cleanupOldHistory jakarta no_faults (200 * msPerDay) (Some 90)
        (empty_db\<lparr>city_weather_history := [example_history ''b'' (150 * msPerDay)]\<rparr>)
     = (Inr \<lparr>city = 0, grid = 0, port = 0, total = 0\<rparr>,
        empty_db\<lparr>city_weather_history := [example_history ''b'' (150 * msPerDay)]\<rparr>)"
proof -
  have ok: "\<forall>c. \<not> no_faults c DeleteManyHistory"
    by (simp add: no_faults_def)
  have first: "cleanupOldHistory jakarta no_faults (200 * msPerDay) (Some 90)
        (empty_db\<lparr>city_weather_history :=
            [example_history ''a'' (100 * msPerDay), example_history ''b'' (150 * msPerDay)]\<rparr>)
     = (Inr \<lparr>city = 1, grid = 0, port = 0, total = 1\<rparr>,
        empty_db\<lparr>city_weather_history := [example_history ''b'' (150 * msPerDay)]\<rparr>)"
    by (simp add: cleanupOldHistory_def setDate_getDate_minus_eq UTC_def LocalTime_def jakarta_def
        deleteManyHistory_def deleteMany_def no_faults_def
        empty_db_def example_history_def archive_copy_def msPerDay_def)
  from ok first
    cleanupOldHistory_idempotent[of no_faults jakarta "200 * msPerDay" "Some 90"
      "empty_db\<lparr>city_weather_history :=
            [example_history ''a'' (100 * msPerDay), example_history ''b'' (150 * msPerDay)]\<rparr>"
      "Inr \<lparr>city = 1, grid = 0, port = 0, total = 1\<rparr>"
      "empty_db\<lparr>city_weather_history := [example_history ''b'' (150 * msPerDay)]\<rparr>"]
  show ?thesis
    by simp
qed

section \<open>The write protocol\<close>

subsection \<open>Upserts\<close>

lemma updateOne_frame:
  assumes "\<And>d. P d \<Longrightarrow> \<not> Q d \<and> \<not> Q (upd d)" and "\<not> Q ins"
  shows "filter Q (updateOne P upd ins c) = filter Q c"
  using assms by (induction c) auto

lemma find_updateOne:
  assumes "\<And>d. P d \<Longrightarrow> P (upd d)" and "P ins"
  shows "List.find P (updateOne P upd ins c) =
           Some (case List.find P c of None \<Rightarrow> ins | Some d \<Rightarrow> upd d)"
  using assms by (induction c) auto

lemma find_as_filter:
  "List.find P xs = (case filter P xs of [] \<Rightarrow> None | x # _ \<Rightarrow> Some x)"
  by (induction xs) auto

lemma find_filter_cong:
  "filter P xs = filter P ys \<Longrightarrow> List.find P xs = List.find P ys"
  by (simp add: find_as_filter)

lemma bulkWrite_Cons: "bulkWrite (operation # operations) c = bulkWrite operations (operation c)"
  by (simp add: bulkWrite_def)

lemma bulkWrite_append: "bulkWrite (xs @ ys) c = bulkWrite ys (bulkWrite xs c)"
  by (simp add: bulkWrite_def)

lemma upserts_frame:
  assumes "\<And>s d. key (upd s d) = skey s" and "\<And>s. key (ins s) = skey s"
      and "k \<notin> skey ` set data"
  shows "filter (\<lambda>d. key d = k)
           (bulkWrite (map (\<lambda>s. updateOne (\<lambda>d. key d = skey s) (upd s) (ins s)) data) c)
         = filter (\<lambda>d. key d = k) c"
  using assms(3)
proof (induction data arbitrary: c)
  case Nil
  then show ?case by (simp add: bulkWrite_def)
next
  case (Cons s data)
  have "filter (\<lambda>d. key d = k) (updateOne (\<lambda>d. key d = skey s) (upd s) (ins s) c) = filter (\<lambda>d. key d = k) c"
    using Cons.prems assms(1,2) by (intro updateOne_frame) auto
  with Cons show ?case
    by (simp add: bulkWrite_Cons)
qed

lemma upserts_find:
  assumes "\<And>s d. key (upd s d) = skey s" and "\<And>s. key (ins s) = skey s"
      and "filter (\<lambda>s'. skey s' = skey s) data = [s]"
  shows "List.find (\<lambda>d. key d = skey s)
           (bulkWrite (map (\<lambda>s. updateOne (\<lambda>d. key d = skey s) (upd s) (ins s)) data) c) =
           Some (case List.find (\<lambda>d. key d = skey s) c of None \<Rightarrow> ins s | Some d \<Rightarrow> upd s d)"
proof -
  from assms(3) obtain pre post where
    data: "data = pre @ s # post" and pre: "\<forall>u\<in>set pre. skey u \<noteq> skey s"
    and post: "filter (\<lambda>s'. skey s' = skey s) post = []"
    by (auto simp: filter_eq_Cons_iff)
  have kpre: "skey s \<notin> skey ` set pre" using pre by auto
  have kpost: "skey s \<notin> skey ` set post" using post by (auto simp: filter_empty_conv)
  let ?P = "\<lambda>d. key d = skey s"
  let ?ops = "\<lambda>xs. map (\<lambda>s. updateOne (\<lambda>d. key d = skey s) (upd s) (ins s)) xs"
  let ?c1 = "bulkWrite (?ops pre) c"
  let ?c2 = "updateOne ?P (upd s) (ins s) ?c1"
  have split: "bulkWrite (?ops data) c = bulkWrite (?ops post) ?c2"
    by (simp add: data bulkWrite_append bulkWrite_Cons)
  have f1: "List.find ?P ?c1 = List.find ?P c"
  proof (rule find_filter_cong)
    show "filter ?P ?c1 = filter ?P c"
      using upserts_frame[where key=key and skey=skey and upd=upd and ins=ins
          and k="skey s" and data=pre and c=c] assms(1,2) kpre by simp
  qed
  have f2: "List.find ?P ?c2 = Some (case List.find ?P ?c1 of None \<Rightarrow> ins s | Some d \<Rightarrow> upd s d)"
    by (rule find_updateOne) (simp_all add: assms(1,2))
  have f3: "List.find ?P (bulkWrite (?ops post) ?c2) = List.find ?P ?c2"
  proof (rule find_filter_cong)
    show "filter ?P (bulkWrite (?ops post) ?c2) = filter ?P ?c2"
      using upserts_frame[where key=key and skey=skey and upd=upd and ins=ins
          and k="skey s" and data=post and c="?c2"] assms(1,2) kpost by simp
  qed
  show ?thesis by (simp only: split f3 f2 f1)
qed

lemma find_Some_set: "List.find P xs = Some x \<Longrightarrow> x \<in> set xs \<and> P x"
  by (induction xs) (auto split: if_splits)

subsection \<open>The archival step\<close>

lemma archiveCityWeather_Inl:
  "archiveCityWeather fails now names db = (Inl e, db1) \<Longrightarrow> db1 = db"
  by (auto simp: archiveCityWeather_def Let_def split: if_splits)

lemma archiveCityWeather_Inr:
  "archiveCityWeather fails now names db = (Inr n, db1) \<Longrightarrow>
   db1 = db\<lparr>city_weather_history := city_weather_history db @
            map (\<lambda>d. archive_copy now (updated_at d) d)
                (filter (\<lambda>d. name d \<in> set names) (city_weather db))\<rparr>"
  by (auto simp: archiveCityWeather_def Let_def find_docs_def insertMany_def split: if_splits)

lemma archiveGridWeather_Inl:
  "archiveGridWeather fails now pts db = (Inl e, db1) \<Longrightarrow> db1 = db"
  by (auto simp: archiveGridWeather_def Let_def split: if_splits)

lemma archiveGridWeather_Inr:
  "archiveGridWeather fails now pts db = (Inr n, db1) \<Longrightarrow>
   db1 = db\<lparr>grid_weather_history := grid_weather_history db @
            map (\<lambda>d. archive_copy now (updated_at d) d)
                (filter (\<lambda>d. (lat d, lon d) \<in> set pts) (grid_weather db))\<rparr>"
  by (auto simp: archiveGridWeather_def Let_def find_docs_def insertMany_def split: if_splits)

lemma archivePortWeather_Inl:
  "archivePortWeather fails now slugs db = (Inl e, db1) \<Longrightarrow> db1 = db"
  by (auto simp: archivePortWeather_def Let_def split: if_splits)

lemma archivePortWeather_Inr:
  "archivePortWeather fails now slugs db = (Inr n, db1) \<Longrightarrow>
   db1 = db\<lparr>port_weather_history := port_weather_history db @
            map (\<lambda>d. archive_copy now (port_updated_at d) d)
                (filter (\<lambda>d. slug d \<in> set slugs) (port_weather db))\<rparr>"
  by (auto simp: archivePortWeather_def Let_def find_docs_def insertMany_def split: if_splits)

subsection \<open>The save functions, step by step\<close>

lemma saveCityWeatherData_run:
  assumes "data \<noteq> []"
  shows "saveCityWeatherData fails now data db =
     (case archiveCityWeather fails now (map name data) db of
        (Inl e, db1) \<Rightarrow> (Inl e, db1)
      | (Inr n, db1) \<Rightarrow>
          if fails City BulkWrite then (Inl (StoreError City BulkWrite), db1)
          else (Inr (), db1\<lparr>city_weather :=
                  bulkWrite (map (\<lambda>s. updateOne (\<lambda>d. name d = name s)
                                        (\<lambda>old. weather_document now s) (weather_document now s)) data)
                    (city_weather db1)\<rparr>))"
  using assms by (simp add: saveCityWeatherData_def Let_def split: prod.split sum.split)

lemma savePortWeatherData_run:
  assumes "data \<noteq> []"
  shows "savePortWeatherData fails now data db =
     (case archivePortWeather fails now (map slug data) db of
        (Inl e, db1) \<Rightarrow> (Inl e, db1)
      | (Inr n, db1) \<Rightarrow>
          if fails Port BulkWrite then (Inl (StoreError Port BulkWrite), db1)
          else (Inr (), db1\<lparr>port_weather :=
                  bulkWrite (map (\<lambda>s. updateOne (\<lambda>d. slug d = slug s)
                                        (port_set now s) (port_document now s)) data)
                    (port_weather db1)\<rparr>))"
  using assms by (simp add: savePortWeatherData_def Let_def split: prod.split sum.split)

lemma saveGridWeatherData_run:
  assumes "data \<noteq> []"
  shows "saveGridWeatherData fails now data db =
     (case archiveGridWeather fails now (map (\<lambda>p. (lat p, lon p)) data) db of
        (Inl e, db1) \<Rightarrow> (Inl e, db1)
      | (Inr n, db1) \<Rightarrow>
          if fails Grid DeleteMany then (Inl (StoreError Grid DeleteMany), db1)
          else if fails Grid InsertMany
            then (Inl (StoreError Grid InsertMany), db1\<lparr>grid_weather := []\<rparr>)
            else (Inr (), db1\<lparr>grid_weather := map (weather_document now) data\<rparr>))"
  using assms by (simp add: saveGridWeatherData_def Let_def deleteMany_def insertMany_def split: prod.split sum.split)

lemma saveCityWeatherData_Inr:
  assumes "saveCityWeatherData fails now data db = (Inr (), db')"
  shows "db' = db\<lparr>city_weather_history := city_weather_history db @
                    map (\<lambda>d. archive_copy now (updated_at d) d)
                        (filter (\<lambda>d. name d \<in> name ` set data) (city_weather db)),
                  city_weather :=
                    bulkWrite (map (\<lambda>s. updateOne (\<lambda>d. name d = name s)
                                        (\<lambda>old. weather_document now s) (weather_document now s)) data)
                      (city_weather db)\<rparr>"
proof (cases "data = []")
  case True
  with assms show ?thesis by (simp add: saveCityWeatherData_def bulkWrite_def)
next
  case False
  obtain a db1 where a: "archiveCityWeather fails now (map name data) db = (a, db1)"
    by (cases "archiveCityWeather fails now (map name data) db")
  with assms False obtain n where n: "a = Inr n"
    by (cases a) (simp_all add: saveCityWeatherData_run)
  from a n have "archiveCityWeather fails now (map name data) db = (Inr n, db1)" by simp
  from archiveCityWeather_Inr[OF this] have db1: "db1 = db\<lparr>city_weather_history := city_weather_history db @
            map (\<lambda>d. archive_copy now (updated_at d) d)
                (filter (\<lambda>d. name d \<in> name ` set data) (city_weather db))\<rparr>"
    by simp
  from assms False a n have "db' = db1\<lparr>city_weather :=
                  bulkWrite (map (\<lambda>s. updateOne (\<lambda>d. name d = name s)
                                        (\<lambda>old. weather_document now s) (weather_document now s)) data)
                    (city_weather db1)\<rparr>"
    by (simp add: saveCityWeatherData_run split: if_splits)
  then show ?thesis unfolding db1 by simp
qed

lemma savePortWeatherData_Inr:
  assumes "savePortWeatherData fails now data db = (Inr (), db')"
  shows "db' = db\<lparr>port_weather_history := port_weather_history db @
                    map (\<lambda>d. archive_copy now (port_updated_at d) d)
                        (filter (\<lambda>d. slug d \<in> slug ` set data) (port_weather db)),
                  port_weather :=
                    bulkWrite (map (\<lambda>s. updateOne (\<lambda>d. slug d = slug s)
                                        (port_set now s) (port_document now s)) data)
                      (port_weather db)\<rparr>"
proof (cases "data = []")
  case True
  with assms show ?thesis by (simp add: savePortWeatherData_def bulkWrite_def)
next
  case False
  obtain a db1 where a: "archivePortWeather fails now (map slug data) db = (a, db1)"
    by (cases "archivePortWeather fails now (map slug data) db")
  with assms False obtain n where n: "a = Inr n"
    by (cases a) (simp_all add: savePortWeatherData_run)
  from a n have "archivePortWeather fails now (map slug data) db = (Inr n, db1)" by simp
  from archivePortWeather_Inr[OF this] have db1: "db1 = db\<lparr>port_weather_history := port_weather_history db @
            map (\<lambda>d. archive_copy now (port_updated_at d) d)
                (filter (\<lambda>d. slug d \<in> slug ` set data) (port_weather db))\<rparr>"
    by simp
  from assms False a n have "db' = db1\<lparr>port_weather :=
                  bulkWrite (map (\<lambda>s. updateOne (\<lambda>d. slug d = slug s)
                                        (port_set now s) (port_document now s)) data)
                    (port_weather db1)\<rparr>"
    by (simp add: savePortWeatherData_run split: if_splits)
  then show ?thesis unfolding db1 by simp
qed

lemma saveGridWeatherData_Inr:
  assumes "saveGridWeatherData fails now data db = (Inr (), db')" and "data \<noteq> []"
  shows "db' = db\<lparr>grid_weather_history := grid_weather_history db @
                    map (\<lambda>d. archive_copy now (updated_at d) d)
                        (filter (\<lambda>d. (lat d, lon d) \<in> (\<lambda>p. (lat p, lon p)) ` set data) (grid_weather db)),
                  grid_weather := map (weather_document now) data\<rparr>"
proof -
  obtain a db1 where a: "archiveGridWeather fails now (map (\<lambda>p. (lat p, lon p)) data) db = (a, db1)"
    by (cases "archiveGridWeather fails now (map (\<lambda>p. (lat p, lon p)) data) db")
  with assms obtain n where n: "a = Inr n"
    by (cases a) (simp_all add: saveGridWeatherData_run)
  from a n have "archiveGridWeather fails now (map (\<lambda>p. (lat p, lon p)) data) db = (Inr n, db1)" by simp
  from archiveGridWeather_Inr[OF this] have db1: "db1 = db\<lparr>grid_weather_history := grid_weather_history db @
            map (\<lambda>d. archive_copy now (updated_at d) d)
                (filter (\<lambda>d. (lat d, lon d) \<in> (\<lambda>p. (lat p, lon p)) ` set data) (grid_weather db))\<rparr>"
    by simp
  from assms a n have "db' = db1\<lparr>grid_weather := map (weather_document now) data\<rparr>"
    by (simp add: saveGridWeatherData_run split: if_splits)
  then show ?thesis unfolding db1 by simp
qed

section \<open>Grid snapshots that no new snapshot matches\<close>

text \<open>
  Claim C10. \<open>saveGridWeatherData\<close> copies into the history exactly the stored grid
  snapshots whose \<open>(lat, lon)\<close> is the \<open>(lat, lon)\<close> of some new snapshot, and then
  deletes every stored grid snapshot. So a stored grid snapshot whose \<open>(lat, lon)\<close>
  appears in no new snapshot is no longer current after the call, and the call adds no
  history record for it. (The archival and the deletion are assumed not to reject; the
  insertion of the new set may or may not.)
\<close>

theorem saveGridWeatherData_unmatched_lost:
  assumes "data \<noteq> []"
      and "\<not> fails Grid Find" and "\<not> fails Grid InsertManyHistory" and "\<not> fails Grid DeleteMany"
      and "d \<in> set (grid_weather db)"
      and "(lat d, lon d) \<notin> (\<lambda>p. (lat p, lon p)) ` set data"
  shows "\<exists>r db'. saveGridWeatherData fails now data db = (r, db')
           \<and> grid_weather_history db' = grid_weather_history db @
                map (\<lambda>d. archive_copy now (updated_at d) d)
                    (filter (\<lambda>d. (lat d, lon d) \<in> (\<lambda>p. (lat p, lon p)) ` set data) (grid_weather db))
           \<and> d \<notin> set (grid_weather db')
           \<and> (\<forall>h \<in> set (grid_weather_history db'). doc h = d \<longrightarrow> h \<in> set (grid_weather_history db))"
proof -
  let ?pts = "map (\<lambda>p. (lat p, lon p)) data"
  let ?H = "grid_weather_history db @
                map (\<lambda>d. archive_copy now (updated_at d) d)
                    (filter (\<lambda>d. (lat d, lon d) \<in> (\<lambda>p. (lat p, lon p)) ` set data) (grid_weather db))"
  obtain a db1 where a: "archiveGridWeather fails now ?pts db = (a, db1)"
    by (cases "archiveGridWeather fails now ?pts db")
  with assms(2,3) obtain n where n: "a = Inr n"
    by (cases a) (auto simp: archiveGridWeather_def Let_def split: if_splits)
  from a n have "archiveGridWeather fails now ?pts db = (Inr n, db1)" by simp
  from archiveGridWeather_Inr[OF this] have db1: "db1 = db\<lparr>grid_weather_history := ?H\<rparr>"
    by simp
  have keys: "(lat d, lon d) \<notin> (\<lambda>p. (lat p, lon p)) ` set (map (weather_document now) data)"
    using assms(6) by (auto simp: weather_document_def)
  then have notin: "d \<notin> set (map (weather_document now) data)"
    by (metis (no_types, lifting) image_eqI)
  have hist: "\<forall>h \<in> set ?H. doc h = d \<longrightarrow> h \<in> set (grid_weather_history db)"
    using assms(6) by (auto simp: archive_copy_def)
  show ?thesis
  proof (cases "fails Grid InsertMany")
    case True
    with assms(1,4) a n have "saveGridWeatherData fails now data db =
        (Inl (StoreError Grid InsertMany), db1\<lparr>grid_weather := []\<rparr>)"
      by (simp add: saveGridWeatherData_run)
    with hist show ?thesis unfolding db1 by simp
  next
    case False
    with assms(1,4) a n have "saveGridWeatherData fails now data db =
        (Inr (), db1\<lparr>grid_weather := map (weather_document now) data\<rparr>)"
      by (simp add: saveGridWeatherData_run)
    with hist notin show ?thesis unfolding db1 by simp
  qed
qed

theorem saveGridWeatherData_unmatched_lost_witness:
  "[example_snapshot ''p'' 1 2 4] \<noteq> []
   \<and> \<not> no_faults Grid Find \<and> \<not> no_faults Grid InsertManyHistory \<and> \<not> no_faults Grid DeleteMany
   \<and> weather_document 0 (example_snapshot ''q'' 5 6 7) \<in> set (grid_weather example_grid_db)
   \<and> saveGridWeatherData no_faults 10 [example_snapshot ''p'' 1 2 4] example_grid_db
       = (Inr (),
          empty_db\<lparr>grid_weather := [weather_document 10 (example_snapshot ''p'' 1 2 4)],
            grid_weather_history :=
              [archive_copy 10 0 (weather_document 0 (example_snapshot ''p'' 1 2 3))]\<rparr>)
   \<and> (\<exists>r db'. saveGridWeatherData no_faults 10 [example_snapshot ''p'' 1 2 4] example_grid_db = (r, db')
         \<and> weather_document 0 (example_snapshot ''q'' 5 6 7) \<notin> set (grid_weather db')
         \<and> (\<forall>h \<in> set (grid_weather_history db').
               doc h = weather_document 0 (example_snapshot ''q'' 5 6 7)
               \<longrightarrow> h \<in> set (grid_weather_history example_grid_db)))"
proof -
  have ne: "[example_snapshot ''p'' 1 2 4] \<noteq> []" by simp
  have ok: "\<not> no_faults Grid Find" "\<not> no_faults Grid InsertManyHistory"
    "\<not> no_faults Grid DeleteMany"
    by (simp_all add: no_faults_def)
  have stored: "weather_document 0 (example_snapshot ''q'' 5 6 7) \<in> set (grid_weather example_grid_db)"
    by (simp add: example_grid_db_def)
  have unmatched: "(lat (weather_document 0 (example_snapshot ''q'' 5 6 7)),
                    lon (weather_document 0 (example_snapshot ''q'' 5 6 7)))
                   \<notin> (\<lambda>p. (lat p, lon p)) ` set [example_snapshot ''p'' 1 2 4]"
    by (simp add: weather_document_def example_snapshot_def)
  have run: "saveGridWeatherData no_faults 10 [example_snapshot ''p'' 1 2 4] example_grid_db
       = (Inr (),
          empty_db\<lparr>grid_weather := [weather_document 10 (example_snapshot ''p'' 1 2 4)],
            grid_weather_history :=
              [archive_copy 10 0 (weather_document 0 (example_snapshot ''p'' 1 2 3))]\<rparr>)"
    by (simp add: saveGridWeatherData_def archiveGridWeather_def no_faults_def
        example_grid_db_def empty_db_def find_docs_def insertMany_def deleteMany_def
        weather_document_def example_snapshot_def Let_def)
  from ne ok stored unmatched
    saveGridWeatherData_unmatched_lost[where fails = no_faults and now = 10
      and data = "[example_snapshot ''p'' 1 2 4]" and db = example_grid_db
      and d = "weather_document 0 (example_snapshot ''q'' 5 6 7)"]
  have "\<exists>r db'. saveGridWeatherData no_faults 10 [example_snapshot ''p'' 1 2 4] example_grid_db = (r, db')
         \<and> weather_document 0 (example_snapshot ''q'' 5 6 7) \<notin> set (grid_weather db')
         \<and> (\<forall>h \<in> set (grid_weather_history db').
               doc h = weather_document 0 (example_snapshot ''q'' 5 6 7)
               \<longrightarrow> h \<in> set (grid_weather_history example_grid_db))"
    by blast
  with ne ok stored run show ?thesis by blast
qed

section \<open>Upsert and replace\<close>

lemma name_weather_document [simp]: "name (weather_document now s) = name s"
  by (simp add: weather_document_def)

lemma slug_port_document [simp]: "slug (port_document now s) = slug s"
  by (simp add: port_document_def)

lemma slug_port_set [simp]: "slug (port_set now s old) = slug s"
  by (simp add: port_set_def)

lemma city_frame:
  assumes "saveCityWeatherData fails now data db = (Inr (), db')" and "k \<notin> name ` set data"
  shows "filter (\<lambda>d. name d = k) (city_weather db') = filter (\<lambda>d. name d = k) (city_weather db)"
proof -
  have "filter (\<lambda>d. name d = k)
          (bulkWrite (map (\<lambda>s. updateOne (\<lambda>d. name d = name s)
                      (\<lambda>old. weather_document now s) (weather_document now s)) data) (city_weather db))
        = filter (\<lambda>d. name d = k) (city_weather db)"
    using upserts_frame[where key = name and skey = name
        and upd = "\<lambda>s old. weather_document now s" and ins = "weather_document now"
        and k = k and data = data and c = "city_weather db"] assms(2)
    by simp
  then show ?thesis
    unfolding saveCityWeatherData_Inr[OF assms(1)] by simp
qed

lemma city_find:
  assumes "saveCityWeatherData fails now data db = (Inr (), db')"
      and "filter (\<lambda>s'. name s' = name s) data = [s]"
  shows "List.find (\<lambda>d. name d = name s) (city_weather db') = Some (weather_document now s)"
proof -
  have "List.find (\<lambda>d. name d = name s)
          (bulkWrite (map (\<lambda>s. updateOne (\<lambda>d. name d = name s)
                      (\<lambda>old. weather_document now s) (weather_document now s)) data) (city_weather db))
        = Some (case List.find (\<lambda>d. name d = name s) (city_weather db) of
                  None \<Rightarrow> weather_document now s | Some d \<Rightarrow> weather_document now s)"
    using upserts_find[where key = name and skey = name
        and upd = "\<lambda>s old. weather_document now s" and ins = "weather_document now"
        and s = s and data = data and c = "city_weather db"] assms(2)
    by simp
  then show ?thesis
    unfolding saveCityWeatherData_Inr[OF assms(1)] by (simp split: option.splits)
qed

lemma port_frame:
  assumes "savePortWeatherData fails now data db = (Inr (), db')" and "k \<notin> slug ` set data"
  shows "filter (\<lambda>d. slug d = k) (port_weather db') = filter (\<lambda>d. slug d = k) (port_weather db)"
proof -
  have "filter (\<lambda>d. slug d = k)
          (bulkWrite (map (\<lambda>s. updateOne (\<lambda>d. slug d = slug s)
                      (port_set now s) (port_document now s)) data) (port_weather db))
        = filter (\<lambda>d. slug d = k) (port_weather db)"
    using upserts_frame[where key = slug and skey = slug
        and upd = "port_set now" and ins = "port_document now"
        and k = k and data = data and c = "port_weather db"] assms(2)
    by simp
  then show ?thesis
    unfolding savePortWeatherData_Inr[OF assms(1)] by simp
qed

lemma port_find:
  assumes "savePortWeatherData fails now data db = (Inr (), db')"
      and "filter (\<lambda>s'. slug s' = slug s) data = [s]"
  shows "List.find (\<lambda>d. slug d = slug s) (port_weather db') =
           Some (case List.find (\<lambda>d. slug d = slug s) (port_weather db) of
                   None \<Rightarrow> port_document now s | Some old \<Rightarrow> port_set now s old)"
proof -
  have "List.find (\<lambda>d. slug d = slug s)
          (bulkWrite (map (\<lambda>s. updateOne (\<lambda>d. slug d = slug s)
                      (port_set now s) (port_document now s)) data) (port_weather db))
        = Some (case List.find (\<lambda>d. slug d = slug s) (port_weather db) of
                   None \<Rightarrow> port_document now s | Some old \<Rightarrow> port_set now s old)"
    using upserts_find[where key = slug and skey = slug
        and upd = "port_set now" and ins = "port_document now"
        and s = s and data = data and c = "port_weather db"] assms(2)
    by simp
  then show ?thesis
    unfolding savePortWeatherData_Inr[OF assms(1)] by simp
qed

lemma grid_replace:
  assumes "saveGridWeatherData fails now data db = (Inr (), db')" and "data \<noteq> []"
  shows "grid_weather db' = map (weather_document now) data"
  unfolding saveGridWeatherData_Inr[OF assms] by simp

lemma port_set_overwrite:
  "(port_set now s old)\<lparr>error := error s\<rparr> = port_document now s"
  "error s = None \<longrightarrow> error old = None \<Longrightarrow> port_set now s old = port_document now s"
  by (simp_all add: port_set_def port_document_def split: option.splits)

lemma port_overwrite:
  assumes "savePortWeatherData fails now data db = (Inr (), db')"
      and "filter (\<lambda>s'. slug s' = slug s) data = [s]"
  shows "\<exists>d. List.find (\<lambda>d. slug d = slug s) (port_weather db') = Some d
             \<and> d\<lparr>error := error s\<rparr> = port_document now s
             \<and> ((\<forall>old. List.find (\<lambda>d. slug d = slug s) (port_weather db) = Some old
                        \<longrightarrow> error s = None \<longrightarrow> error old = None)
                  \<longrightarrow> d = port_document now s)"
proof (cases "List.find (\<lambda>d. slug d = slug s) (port_weather db)")
  case None
  with port_find[OF assms]
  have "List.find (\<lambda>d. slug d = slug s) (port_weather db') = Some (port_document now s)"
    by simp
  then show ?thesis by (simp add: port_document_def)
next
  case (Some old)
  with port_find[OF assms]
  have "List.find (\<lambda>d. slug d = slug s) (port_weather db') = Some (port_set now s old)"
    by simp
  with Some show ?thesis
    by (simp add: port_set_overwrite)
qed

lemma grid_empty: "saveGridWeatherData fails now [] db = (Inr (), db)"
  by (simp add: saveGridWeatherData_def)

text \<open>
  Claim C8, amended. For the city and port classes a successful write of
  \<open>newSnapshots\<close> is an upsert keyed by identity. The stored snapshots of an identity
  that is not among the new snapshots are left as they were. For an identity that occurs
  once among the new snapshots, the first stored document of that identity afterwards is
  the new snapshot stamped with \<open>updated_at = now\<close>, whether or not a document of that
  identity was stored before. For a port snapshot that carries no error text this is
  stated in full where the stored document of its slug has none either, and otherwise
  for every field but the error text. For the grid class a successful write of a
  non-empty \<open>newSnapshots\<close> replaces the whole collection by the new set, and a write of
  an empty \<open>newSnapshots\<close> changes nothing.
\<close>

theorem save_write_protocol:
  "(\<forall>db'. saveCityWeatherData fails now cdata db = (Inr (), db') \<longrightarrow>
      (\<forall>k. k \<notin> name ` set cdata \<longrightarrow>
          filter (\<lambda>d. name d = k) (city_weather db') = filter (\<lambda>d. name d = k) (city_weather db))
    \<and> (\<forall>s. filter (\<lambda>s'. name s' = name s) cdata = [s] \<longrightarrow>
          List.find (\<lambda>d. name d = name s) (city_weather db') = Some (weather_document now s)))
   \<and> (\<forall>db'. savePortWeatherData fails now pdata db = (Inr (), db') \<longrightarrow>
      (\<forall>k. k \<notin> slug ` set pdata \<longrightarrow>
          filter (\<lambda>d. slug d = k) (port_weather db') = filter (\<lambda>d. slug d = k) (port_weather db))
    \<and> (\<forall>s. filter (\<lambda>s'. slug s' = slug s) pdata = [s] \<longrightarrow>
          (\<exists>d. List.find (\<lambda>d. slug d = slug s) (port_weather db') = Some d
             \<and> d\<lparr>error := error s\<rparr> = port_document now s
             \<and> ((\<forall>old. List.find (\<lambda>d. slug d = slug s) (port_weather db) = Some old
                        \<longrightarrow> error s = None \<longrightarrow> error old = None)
                  \<longrightarrow> d = port_document now s))))
   \<and> (\<forall>db'. gdata \<noteq> [] \<longrightarrow> saveGridWeatherData fails now gdata db = (Inr (), db') \<longrightarrow>
          grid_weather db' = map (weather_document now) gdata)
   \<and> saveGridWeatherData fails now [] db = (Inr (), db)"
  by (intro conjI allI impI city_frame city_find port_frame port_overwrite grid_replace grid_empty)

text \<open>
  A city write that updates one stored snapshot, inserts another and leaves a third; a
  port write over a stored snapshot of the same slug; a grid write that replaces two
  stored snapshots by one.
\<close>

theorem save_write_protocol_witness:
  "saveCityWeatherData no_faults 10 [example_snapshot ''a'' 1 1 9, example_snapshot ''c'' 3 3 3]
         example_city_db
       = (Inr (),
          empty_db\<lparr>city_weather :=
              [weather_document 10 (example_snapshot ''a'' 1 1 9),
               weather_document 0 (example_snapshot ''b'' 2 2 2),
               weather_document 10 (example_snapshot ''c'' 3 3 3)],
            city_weather_history :=
              [archive_copy 10 0 (weather_document 0 (example_snapshot ''a'' 1 1 1))]\<rparr>)
   \<and> ''b'' \<notin> name ` set [example_snapshot ''a'' 1 1 9, example_snapshot ''c'' 3 3 3]
   \<and> filter (\<lambda>d. name d = ''b'')
        [weather_document 10 (example_snapshot ''a'' 1 1 9),
         weather_document 0 (example_snapshot ''b'' 2 2 2),
         weather_document 10 (example_snapshot ''c'' 3 3 3)]
      = filter (\<lambda>d. name d = ''b'') (city_weather example_city_db)
   \<and> filter (\<lambda>s'. name s' = name (example_snapshot ''a'' 1 1 9))
        [example_snapshot ''a'' 1 1 9, example_snapshot ''c'' 3 3 3] = [example_snapshot ''a'' 1 1 9]
   \<and> List.find (\<lambda>d. name d = name (example_snapshot ''a'' 1 1 9))
        [weather_document 10 (example_snapshot ''a'' 1 1 9),
         weather_document 0 (example_snapshot ''b'' 2 2 2),
         weather_document 10 (example_snapshot ''c'' 3 3 3)]
      = Some (weather_document 10 (example_snapshot ''a'' 1 1 9))
   \<and> savePortWeatherData no_faults 10 [example_port_snapshot ''cerah'' 9]
        (empty_db\<lparr>port_weather := [port_document 0 (example_port_snapshot ''hujan'' 0)]\<rparr>)
       = (Inr (),
          empty_db\<lparr>port_weather := [port_document 10 (example_port_snapshot ''cerah'' 9)],
            port_weather_history :=
              [archive_copy 10 0 (port_document 0 (example_port_snapshot ''hujan'' 0))]\<rparr>)
   \<and> filter (\<lambda>s'. slug s' = slug (example_port_snapshot ''cerah'' 9))
        [example_port_snapshot ''cerah'' 9] = [example_port_snapshot ''cerah'' 9]
   \<and> List.find (\<lambda>d. slug d = slug (example_port_snapshot ''cerah'' 9))
        [port_document 0 (example_port_snapshot ''hujan'' 0)]
       = Some (port_document 0 (example_port_snapshot ''hujan'' 0))
   \<and> error (port_document 0 (example_port_snapshot ''hujan'' 0)) = None
   \<and> List.find (\<lambda>d. slug d = slug (example_port_snapshot ''cerah'' 9))
        [port_document 10 (example_port_snapshot ''cerah'' 9)]
       = Some (port_document 10 (example_port_snapshot ''cerah'' 9))
   \<and> [example_snapshot ''r'' 8 9 4] \<noteq> []
   \<and> saveGridWeatherData no_faults 10 [example_snapshot ''r'' 8 9 4] example_grid_db
       = (Inr (), empty_db\<lparr>grid_weather := [weather_document 10 (example_snapshot ''r'' 8 9 4)]\<rparr>)
   \<and> [weather_document 10 (example_snapshot ''r'' 8 9 4)]
       = map (weather_document 10) [example_snapshot ''r'' 8 9 4]"
proof -
  let ?data = "[example_snapshot ''a'' 1 1 9, example_snapshot ''c'' 3 3 3]"
  let ?db' = "empty_db\<lparr>city_weather :=
              [weather_document 10 (example_snapshot ''a'' 1 1 9),
               weather_document 0 (example_snapshot ''b'' 2 2 2),
               weather_document 10 (example_snapshot ''c'' 3 3 3)],
            city_weather_history :=
              [archive_copy 10 0 (weather_document 0 (example_snapshot ''a'' 1 1 1))]\<rparr>"
  have run: "saveCityWeatherData no_faults 10 ?data example_city_db = (Inr (), ?db')"
    by (simp add: saveCityWeatherData_def archiveCityWeather_def no_faults_def
        example_city_db_def empty_db_def find_docs_def insertMany_def bulkWrite_def
        weather_document_def example_snapshot_def Let_def)
  have other: "''b'' \<notin> name ` set ?data"
    by (simp add: example_snapshot_def)
  have once: "filter (\<lambda>s'. name s' = name (example_snapshot ''a'' 1 1 9)) ?data
                = [example_snapshot ''a'' 1 1 9]"
    by (simp add: example_snapshot_def)
  note city = save_write_protocol[where fails = no_faults and now = 10 and cdata = ?data
      and db = example_city_db and pdata = "[]" and gdata = "[]",
      THEN conjunct1, rule_format, OF run]
  from city[THEN conjunct1, rule_format, OF other]
  have frame: "filter (\<lambda>d. name d = ''b'')
        [weather_document 10 (example_snapshot ''a'' 1 1 9),
         weather_document 0 (example_snapshot ''b'' 2 2 2),
         weather_document 10 (example_snapshot ''c'' 3 3 3)]
      = filter (\<lambda>d. name d = ''b'') (city_weather example_city_db)"
    by (simp add: empty_db_def)
  from city[THEN conjunct2, rule_format, OF once]
  have found: "List.find (\<lambda>d. name d = name (example_snapshot ''a'' 1 1 9))
        [weather_document 10 (example_snapshot ''a'' 1 1 9),
         weather_document 0 (example_snapshot ''b'' 2 2 2),
         weather_document 10 (example_snapshot ''c'' 3 3 3)]
      = Some (weather_document 10 (example_snapshot ''a'' 1 1 9))"
    by (simp add: empty_db_def)
  let ?new = "example_port_snapshot ''cerah'' 9"
  let ?old = "port_document 0 (example_port_snapshot ''hujan'' 0)"
  let ?pdb = "empty_db\<lparr>port_weather := [?old]\<rparr> :: nat db"
  let ?pdb' = "empty_db\<lparr>port_weather := [port_document 10 ?new],
                 port_weather_history := [archive_copy 10 0 ?old]\<rparr> :: nat db"
  have prun: "savePortWeatherData no_faults 10 [?new] ?pdb = (Inr (), ?pdb')"
    by (simp add: savePortWeatherData_def archivePortWeather_def no_faults_def
        empty_db_def find_docs_def insertMany_def bulkWrite_def
        port_document_def port_set_def example_port_snapshot_def Let_def)
  have ponce: "filter (\<lambda>s'. slug s' = slug ?new) [?new] = [?new]"
    by simp
  have stored: "List.find (\<lambda>d. slug d = slug ?new) [?old] = Some ?old"
    by (simp add: example_port_snapshot_def)
  have clean: "error ?old = None"
    by (simp add: port_document_def example_port_snapshot_def)
  from stored clean
  have fresh: "\<forall>old. List.find (\<lambda>d. slug d = slug ?new) (port_weather ?pdb) = Some old
                \<longrightarrow> error ?new = None \<longrightarrow> error old = None"
    by (simp add: empty_db_def)
  from save_write_protocol[where fails = no_faults and now = 10 and pdata = "[?new]"
      and db = ?pdb and cdata = "[]" and gdata = "[]",
      THEN conjunct2, THEN conjunct1, rule_format, OF prun, THEN conjunct2, rule_format, OF ponce]
    fresh
  have "List.find (\<lambda>d. slug d = slug ?new) (port_weather ?pdb') = Some (port_document 10 ?new)"
    by blast
  then have pfound: "List.find (\<lambda>d. slug d = slug ?new) [port_document 10 ?new]
      = Some (port_document 10 ?new)"
    by (simp add: empty_db_def)
  let ?g = "example_snapshot ''r'' 8 9 4"
  have ne: "[?g] \<noteq> []" by simp
  have grun: "saveGridWeatherData no_faults 10 [?g] example_grid_db
       = (Inr (), empty_db\<lparr>grid_weather := [weather_document 10 ?g]\<rparr>)"
    by (simp add: saveGridWeatherData_def archiveGridWeather_def no_faults_def
        example_grid_db_def empty_db_def find_docs_def insertMany_def deleteMany_def
        weather_document_def example_snapshot_def Let_def)
  from save_write_protocol[where fails = no_faults and now = 10 and gdata = "[?g]"
      and db = example_grid_db and cdata = "[]" and pdata = "[]",
      THEN conjunct2, THEN conjunct2, THEN conjunct1, rule_format, OF ne grun]
  have replaced: "[weather_document 10 ?g] = map (weather_document 10) [?g]"
    by (simp add: empty_db_def)
  from run other once frame found prun ponce stored clean pfound ne grun replaced show ?thesis
    by (intro conjI)
qed

text \<open>
  The claim as stated does not hold for the grid class when the new set is empty:
  \<open>saveGridWeatherData\<close> returns before it deletes anything, and the stored snapshots
  stay current.
\<close>

theorem save_write_protocol_counterexample:
  "saveGridWeatherData no_faults 10 [] example_grid_db = (Inr (), example_grid_db)
   \<and> grid_weather example_grid_db \<noteq> map (weather_document 10) []"
  by (simp add: saveGridWeatherData_def example_grid_db_def)

section \<open>Archive before write\<close>

subsection \<open>A failed archival aborts the write\<close>

lemma city_abort:
  assumes "data \<noteq> []" and "fst (archiveCityWeather fails now (map name data) db) = Inl e"
  shows "saveCityWeatherData fails now data db = (Inl e, db)"
proof -
  obtain db1 where a: "archiveCityWeather fails now (map name data) db = (Inl e, db1)"
    using assms(2) by (cases "archiveCityWeather fails now (map name data) db") simp
  from archiveCityWeather_Inl[OF a] a assms(1) show ?thesis
    by (simp add: saveCityWeatherData_run)
qed

lemma grid_abort:
  assumes "data \<noteq> []"
      and "fst (archiveGridWeather fails now (map (\<lambda>p. (lat p, lon p)) data) db) = Inl e"
  shows "saveGridWeatherData fails now data db = (Inl e, db)"
proof -
  obtain db1 where a: "archiveGridWeather fails now (map (\<lambda>p. (lat p, lon p)) data) db = (Inl e, db1)"
    using assms(2) by (cases "archiveGridWeather fails now (map (\<lambda>p. (lat p, lon p)) data) db") simp
  from archiveGridWeather_Inl[OF a] a assms(1) show ?thesis
    by (simp add: saveGridWeatherData_run)
qed

lemma port_abort:
  assumes "data \<noteq> []" and "fst (archivePortWeather fails now (map slug data) db) = Inl e"
  shows "savePortWeatherData fails now data db = (Inl e, db)"
proof -
  obtain db1 where a: "archivePortWeather fails now (map slug data) db = (Inl e, db1)"
    using assms(2) by (cases "archivePortWeather fails now (map slug data) db") simp
  from archivePortWeather_Inl[OF a] a assms(1) show ?thesis
    by (simp add: savePortWeatherData_run)
qed

subsection \<open>The archival step comes first\<close>

lemma city_archived_first:
  assumes "data \<noteq> []" and a: "archiveCityWeather fails now (map name data) db = (Inr n, db1)"
  shows "city_weather db1 = city_weather db
       \<and> (\<forall>d \<in> set (city_weather db). name d \<in> name ` set data \<longrightarrow>
             archive_copy now (updated_at d) d \<in> set (city_weather_history db1))
       \<and> city_weather_history (snd (saveCityWeatherData fails now data db)) = city_weather_history db1"
proof -
  note db1 = archiveCityWeather_Inr[OF a]
  have 1: "city_weather db1 = city_weather db" unfolding db1 by simp
  have 2: "\<forall>d \<in> set (city_weather db). name d \<in> name ` set data \<longrightarrow>
             archive_copy now (updated_at d) d \<in> set (city_weather_history db1)"
    unfolding db1 by auto
  have 3: "city_weather_history (snd (saveCityWeatherData fails now data db)) = city_weather_history db1"
    using assms by (simp add: saveCityWeatherData_run)
  from 1 2 3 show ?thesis by blast
qed

lemma grid_archived_first:
  assumes "data \<noteq> []"
      and a: "archiveGridWeather fails now (map (\<lambda>p. (lat p, lon p)) data) db = (Inr n, db1)"
  shows "grid_weather db1 = grid_weather db
       \<and> (\<forall>d \<in> set (grid_weather db). (lat d, lon d) \<in> (\<lambda>p. (lat p, lon p)) ` set data \<longrightarrow>
             archive_copy now (updated_at d) d \<in> set (grid_weather_history db1))
       \<and> grid_weather_history (snd (saveGridWeatherData fails now data db)) = grid_weather_history db1"
proof -
  note db1 = archiveGridWeather_Inr[OF a]
  have 1: "grid_weather db1 = grid_weather db" unfolding db1 by simp
  have 2: "\<forall>d \<in> set (grid_weather db). (lat d, lon d) \<in> (\<lambda>p. (lat p, lon p)) ` set data \<longrightarrow>
             archive_copy now (updated_at d) d \<in> set (grid_weather_history db1)"
    unfolding db1 by auto
  have 3: "grid_weather_history (snd (saveGridWeatherData fails now data db)) = grid_weather_history db1"
    using assms by (simp add: saveGridWeatherData_run)
  from 1 2 3 show ?thesis by blast
qed

lemma port_archived_first:
  assumes "data \<noteq> []" and a: "archivePortWeather fails now (map slug data) db = (Inr n, db1)"
  shows "port_weather db1 = port_weather db
       \<and> (\<forall>d \<in> set (port_weather db). slug d \<in> slug ` set data \<longrightarrow>
             archive_copy now (port_updated_at d) d \<in> set (port_weather_history db1))
       \<and> port_weather_history (snd (savePortWeatherData fails now data db)) = port_weather_history db1"
proof -
  note db1 = archivePortWeather_Inr[OF a]
  have 1: "port_weather db1 = port_weather db" unfolding db1 by simp
  have 2: "\<forall>d \<in> set (port_weather db). slug d \<in> slug ` set data \<longrightarrow>
             archive_copy now (port_updated_at d) d \<in> set (port_weather_history db1)"
    unfolding db1 by auto
  have 3: "port_weather_history (snd (savePortWeatherData fails now data db)) = port_weather_history db1"
    using assms by (simp add: savePortWeatherData_run)
  from 1 2 3 show ?thesis by blast
qed

subsection \<open>The archival step succeeds when its two operations do\<close>

lemma archiveCityWeather_succeeds:
  "\<not> fails City Find \<Longrightarrow> \<not> fails City InsertManyHistory \<Longrightarrow>
   \<exists>n db1. archiveCityWeather fails now names db = (Inr n, db1)"
  by (simp add: archiveCityWeather_def Let_def)

lemma archiveGridWeather_succeeds:
  "\<not> fails Grid Find \<Longrightarrow> \<not> fails Grid InsertManyHistory \<Longrightarrow>
   \<exists>n db1. archiveGridWeather fails now pts db = (Inr n, db1)"
  by (simp add: archiveGridWeather_def Let_def)

lemma archivePortWeather_succeeds:
  "\<not> fails Port Find \<Longrightarrow> \<not> fails Port InsertManyHistory \<Longrightarrow>
   \<exists>n db1. archivePortWeather fails now slugs db = (Inr n, db1)"
  by (simp add: archivePortWeather_def Let_def)

subsection \<open>Two writes to the same identity\<close>

lemma port_set_idem: "port_set t s (port_set t s old) = port_set t s old"
  by (simp add: port_set_def split: option.splits)

lemma port_set_document: "port_set t s (port_document t s) = port_document t s"
  by (simp add: port_set_def port_document_def split: option.splits)

lemma upserts_last:
  assumes "\<And>s d. key (upd s d) = skey s" and "\<And>s. key (ins s) = skey s"
      and "data = pre @ s # post" and "skey s \<notin> skey ` set post"
  shows "\<exists>d. List.find (\<lambda>d. key d = skey s)
                (bulkWrite (map (\<lambda>s. updateOne (\<lambda>d. key d = skey s) (upd s) (ins s)) data) c)
              = Some d
            \<and> (d = ins s \<or> (\<exists>old. d = upd s old))"
proof -
  let ?P = "\<lambda>d. key d = skey s"
  let ?ops = "\<lambda>xs. map (\<lambda>s. updateOne (\<lambda>d. key d = skey s) (upd s) (ins s)) xs"
  let ?c1 = "bulkWrite (?ops pre) c"
  let ?c2 = "updateOne ?P (upd s) (ins s) ?c1"
  have split: "bulkWrite (?ops data) c = bulkWrite (?ops post) ?c2"
    by (simp add: assms(3) bulkWrite_append bulkWrite_Cons)
  have f2: "List.find ?P ?c2 = Some (case List.find ?P ?c1 of None \<Rightarrow> ins s | Some d \<Rightarrow> upd s d)"
    by (rule find_updateOne) (simp_all add: assms(1,2))
  have f3: "List.find ?P (bulkWrite (?ops post) ?c2) = List.find ?P ?c2"
  proof (rule find_filter_cong)
    show "filter ?P (bulkWrite (?ops post) ?c2) = filter ?P ?c2"
      using upserts_frame[where key=key and skey=skey and upd=upd and ins=ins
          and k="skey s" and data=post and c="?c2"] assms(1,2,4) by simp
  qed
  have "List.find ?P (bulkWrite (?ops data) c)
          = Some (case List.find ?P ?c1 of None \<Rightarrow> ins s | Some d \<Rightarrow> upd s d)"
    by (simp only: split f3 f2)
  then show ?thesis
    by (cases "List.find ?P ?c1") auto
qed

lemma city_last:
  assumes "saveCityWeatherData fails now data db = (Inr (), db')"
      and "data = pre @ s # post" and "name s \<notin> name ` set post"
  shows "weather_document now s \<in> set (city_weather db')"
proof -
  from upserts_last[where key = name and skey = name
        and upd = "\<lambda>s old. weather_document now s" and ins = "weather_document now"
        and s = s and data = data and pre = pre and post = post and c = "city_weather db"]
    assms(2,3)
  have "List.find (\<lambda>d. name d = name s)
          (bulkWrite (map (\<lambda>s. updateOne (\<lambda>d. name d = name s)
                      (\<lambda>old. weather_document now s) (weather_document now s)) data) (city_weather db))
        = Some (weather_document now s)"
    by auto
  from find_Some_set[OF this] show ?thesis
    unfolding saveCityWeatherData_Inr[OF assms(1)] by simp
qed

lemma port_last:
  assumes "savePortWeatherData fails now data db = (Inr (), db')"
      and "data = pre @ s # post" and "slug s \<notin> slug ` set post"
  shows "\<exists>d. d \<in> set (port_weather db') \<and> slug d = slug s \<and> port_set now s d = d
            \<and> port_updated_at d = now"
proof -
  from upserts_last[where key = slug and skey = slug
        and upd = "port_set now" and ins = "port_document now"
        and s = s and data = data and pre = pre and post = post and c = "port_weather db"]
    assms(2,3)
  obtain d where f: "List.find (\<lambda>d. slug d = slug s)
          (bulkWrite (map (\<lambda>s. updateOne (\<lambda>d. slug d = slug s)
                      (port_set now s) (port_document now s)) data) (port_weather db)) = Some d"
    and d: "d = port_document now s \<or> (\<exists>old. d = port_set now s old)"
    by auto
  from d have idem: "port_set now s d = d"
    by (auto simp: port_set_idem port_set_document)
  from d have upd: "port_updated_at d = now"
    by (auto simp: port_set_def port_document_def)
  from find_Some_set[OF f] have "d \<in> set (port_weather db')" "slug d = slug s"
    unfolding savePortWeatherData_Inr[OF assms(1)] by simp_all
  with idem upd show ?thesis by blast
qed

lemma city_two_writes:
  assumes w1: "saveCityWeatherData f1 t1 data1 db0 = (Inr (), db1)"
      and last: "data1 = pre @ s1 # post" "name s1 \<notin> name ` set post"
      and again: "name s1 \<in> name ` set data2"
      and ok: "\<not> f2 City Find" "\<not> f2 City InsertManyHistory"
  shows "\<exists>n dba. archiveCityWeather f2 t2 (map name data2) db1 = (Inr n, dba)
           \<and> city_weather dba = city_weather db1
           \<and> weather_document t1 s1 \<in> set (city_weather db1)
           \<and> archive_copy t2 t1 (weather_document t1 s1) \<in> set (city_weather_history dba)
           \<and> archive_copy t2 t1 (weather_document t1 s1)
               \<in> set (city_weather_history (snd (saveCityWeatherData f2 t2 data2 db1)))"
proof -
  let ?d = "weather_document t1 s1"
  from again have ne: "data2 \<noteq> []" by auto
  from city_last[OF w1 last]
  have mem: "?d \<in> set (city_weather db1)" .
  have key: "name ?d \<in> name ` set data2"
    using again by simp
  from ok archiveCityWeather_succeeds[where fails = f2 and now = t2
      and names = "map name data2" and db = db1] obtain n dba where
    a: "archiveCityWeather f2 t2 (map name data2) db1 = (Inr n, dba)" by blast
  note first = city_archived_first[OF ne a]
  from first have same: "city_weather dba = city_weather db1"
    by blast
  from first have copies: "\<forall>d \<in> set (city_weather db1). name d \<in> name ` set data2 \<longrightarrow>
      archive_copy t2 (updated_at d) d \<in> set (city_weather_history dba)"
    by blast
  from first have kept: "city_weather_history (snd (saveCityWeatherData f2 t2 data2 db1))
      = city_weather_history dba"
    by blast
  from copies mem key have "archive_copy t2 (updated_at ?d) ?d \<in> set (city_weather_history dba)"
    by blast
  then have "archive_copy t2 t1 ?d \<in> set (city_weather_history dba)"
    by (simp add: weather_document_def)
  with a same mem kept show ?thesis by simp
qed

lemma grid_two_writes:
  assumes w1: "saveGridWeatherData f1 t1 data1 db0 = (Inr (), db1)"
      and s1: "s1 \<in> set data1"
      and again: "(lat s1, lon s1) \<in> (\<lambda>p. (lat p, lon p)) ` set data2"
      and ok: "\<not> f2 Grid Find" "\<not> f2 Grid InsertManyHistory"
  shows "\<exists>n dba. archiveGridWeather f2 t2 (map (\<lambda>p. (lat p, lon p)) data2) db1 = (Inr n, dba)
           \<and> grid_weather dba = grid_weather db1
           \<and> weather_document t1 s1 \<in> set (grid_weather db1)
           \<and> archive_copy t2 t1 (weather_document t1 s1) \<in> set (grid_weather_history dba)
           \<and> archive_copy t2 t1 (weather_document t1 s1)
               \<in> set (grid_weather_history (snd (saveGridWeatherData f2 t2 data2 db1)))"
proof -
  let ?d = "weather_document t1 s1"
  from again have ne: "data2 \<noteq> []" by auto
  from s1 have ne1: "data1 \<noteq> []" by auto
  from grid_replace[OF w1 ne1] s1 have mem: "?d \<in> set (grid_weather db1)"
    by simp
  have key: "(lat ?d, lon ?d) \<in> (\<lambda>p. (lat p, lon p)) ` set data2"
    using again by (simp add: weather_document_def)
  from ok archiveGridWeather_succeeds[where fails = f2 and now = t2
      and pts = "map (\<lambda>p. (lat p, lon p)) data2" and db = db1] obtain n dba where
    a: "archiveGridWeather f2 t2 (map (\<lambda>p. (lat p, lon p)) data2) db1 = (Inr n, dba)" by blast
  note first = grid_archived_first[OF ne a]
  from first have same: "grid_weather dba = grid_weather db1"
    by blast
  from first have copies: "\<forall>d \<in> set (grid_weather db1).
      (lat d, lon d) \<in> (\<lambda>p. (lat p, lon p)) ` set data2 \<longrightarrow>
      archive_copy t2 (updated_at d) d \<in> set (grid_weather_history dba)"
    by blast
  from first have kept: "grid_weather_history (snd (saveGridWeatherData f2 t2 data2 db1))
      = grid_weather_history dba"
    by blast
  from copies mem key have "archive_copy t2 (updated_at ?d) ?d \<in> set (grid_weather_history dba)"
    by blast
  then have "archive_copy t2 t1 ?d \<in> set (grid_weather_history dba)"
    by (simp add: weather_document_def)
  with a same mem kept show ?thesis by simp
qed

lemma port_two_writes:
  assumes w1: "savePortWeatherData f1 t1 data1 db0 = (Inr (), db1)"
      and last: "data1 = pre @ s1 # post" "slug s1 \<notin> slug ` set post"
      and again: "slug s1 \<in> slug ` set data2"
      and ok: "\<not> f2 Port Find" "\<not> f2 Port InsertManyHistory"
  shows "\<exists>n dba d1. archivePortWeather f2 t2 (map slug data2) db1 = (Inr n, dba)
           \<and> port_weather dba = port_weather db1
           \<and> d1 \<in> set (port_weather db1) \<and> port_set t1 s1 d1 = d1
           \<and> archive_copy t2 t1 d1 \<in> set (port_weather_history dba)
           \<and> archive_copy t2 t1 d1
               \<in> set (port_weather_history (snd (savePortWeatherData f2 t2 data2 db1)))"
proof -
  from again have ne: "data2 \<noteq> []" by auto
  from port_last[OF w1 last] obtain d1 where
    mem: "d1 \<in> set (port_weather db1)" and "slug d1 = slug s1"
    and idem: "port_set t1 s1 d1 = d1" and upd: "port_updated_at d1 = t1"
    by blast
  then have key: "slug d1 \<in> slug ` set data2"
    using again by simp
  from ok archivePortWeather_succeeds[where fails = f2 and now = t2
      and slugs = "map slug data2" and db = db1] obtain n dba where
    a: "archivePortWeather f2 t2 (map slug data2) db1 = (Inr n, dba)" by blast
  note first = port_archived_first[OF ne a]
  from first have same: "port_weather dba = port_weather db1"
    by blast
  from first have copies: "\<forall>d \<in> set (port_weather db1). slug d \<in> slug ` set data2 \<longrightarrow>
      archive_copy t2 (port_updated_at d) d \<in> set (port_weather_history dba)"
    by blast
  from first have kept: "port_weather_history (snd (savePortWeatherData f2 t2 data2 db1))
      = port_weather_history dba"
    by blast
  from copies mem key have "archive_copy t2 (port_updated_at d1) d1 \<in> set (port_weather_history dba)"
    by blast
  then have "archive_copy t2 t1 d1 \<in> set (port_weather_history dba)"
    by (simp add: upd)
  with a same mem idem kept show ?thesis by auto
qed

text \<open>
  Claim C1. For each class, a call of the save function with a non-empty list of
  snapshots first runs the archival step, which copies the stored snapshots whose
  identity is among the new snapshots' into the history and does not touch the current
  collection; the write of the new snapshots follows and does not touch the history.
  \<^item> If the archival step throws, the save function throws the same error and the store,
    in particular the current collection, is as it was.
  \<^item> If the archival step returns, then in the store it leaves the current collection is
    still the old one and the history holds a copy of every stored snapshot with a
    matching identity, and the history at the end of the call is that history.
  \<^item> For two writes to the same identity: after a successful first write, the snapshot
    \<open>s1\<close> that the first write stored for the identity (the last one of that identity
    in its list) is current; when the archival of the second write does not throw, the
    state between its archival and its write has the first snapshot still current and
    its copy, stamped with the time of the second write, in the history, and the copy
    is in the history at the end of the second call. For a port the stored document is
    the snapshot's fields set on the document of that slug (\<open>port_set t1 s1 d1 = d1\<close>).
\<close>

theorem archive_before_write:
  "(cdata \<noteq> [] \<longrightarrow> fst (archiveCityWeather fails now (map name cdata) db) = Inl e \<longrightarrow>
      saveCityWeatherData fails now cdata db = (Inl e, db))
   \<and> (gdata \<noteq> [] \<longrightarrow>
        fst (archiveGridWeather fails now (map (\<lambda>p. (lat p, lon p)) gdata) db) = Inl e \<longrightarrow>
      saveGridWeatherData fails now gdata db = (Inl e, db))
   \<and> (pdata \<noteq> [] \<longrightarrow> fst (archivePortWeather fails now (map slug pdata) db) = Inl e \<longrightarrow>
      savePortWeatherData fails now pdata db = (Inl e, db))
   \<and> (cdata \<noteq> [] \<longrightarrow>
        (\<forall>n db1. archiveCityWeather fails now (map name cdata) db = (Inr n, db1) \<longrightarrow>
           city_weather db1 = city_weather db
         \<and> (\<forall>d \<in> set (city_weather db). name d \<in> name ` set cdata \<longrightarrow>
               archive_copy now (updated_at d) d \<in> set (city_weather_history db1))
         \<and> city_weather_history (snd (saveCityWeatherData fails now cdata db))
             = city_weather_history db1))
   \<and> (gdata \<noteq> [] \<longrightarrow>
        (\<forall>n db1. archiveGridWeather fails now (map (\<lambda>p. (lat p, lon p)) gdata) db = (Inr n, db1) \<longrightarrow>
           grid_weather db1 = grid_weather db
         \<and> (\<forall>d \<in> set (grid_weather db). (lat d, lon d) \<in> (\<lambda>p. (lat p, lon p)) ` set gdata \<longrightarrow>
               archive_copy now (updated_at d) d \<in> set (grid_weather_history db1))
         \<and> grid_weather_history (snd (saveGridWeatherData fails now gdata db))
             = grid_weather_history db1))
   \<and> (pdata \<noteq> [] \<longrightarrow>
        (\<forall>n db1. archivePortWeather fails now (map slug pdata) db = (Inr n, db1) \<longrightarrow>
           port_weather db1 = port_weather db
         \<and> (\<forall>d \<in> set (port_weather db). slug d \<in> slug ` set pdata \<longrightarrow>
               archive_copy now (port_updated_at d) d \<in> set (port_weather_history db1))
         \<and> port_weather_history (snd (savePortWeatherData fails now pdata db))
             = port_weather_history db1))
   \<and> (\<forall>f1 t1 data1 db1 pre s1 post f2 t2 data2.
        saveCityWeatherData f1 t1 data1 db = (Inr (), db1) \<longrightarrow>
        data1 = pre @ s1 # post \<longrightarrow> name s1 \<notin> name ` set post \<longrightarrow>
        name s1 \<in> name ` set data2 \<longrightarrow>
        \<not> f2 City Find \<longrightarrow> \<not> f2 City InsertManyHistory \<longrightarrow>
        (\<exists>n dba. archiveCityWeather f2 t2 (map name data2) db1 = (Inr n, dba)
           \<and> city_weather dba = city_weather db1
           \<and> weather_document t1 s1 \<in> set (city_weather db1)
           \<and> archive_copy t2 t1 (weather_document t1 s1) \<in> set (city_weather_history dba)
           \<and> archive_copy t2 t1 (weather_document t1 s1)
               \<in> set (city_weather_history (snd (saveCityWeatherData f2 t2 data2 db1)))))
   \<and> (\<forall>f1 t1 data1 db1 s1 f2 t2 data2.
        saveGridWeatherData f1 t1 data1 db = (Inr (), db1) \<longrightarrow>
        s1 \<in> set data1 \<longrightarrow>
        (lat s1, lon s1) \<in> (\<lambda>p. (lat p, lon p)) ` set data2 \<longrightarrow>
        \<not> f2 Grid Find \<longrightarrow> \<not> f2 Grid InsertManyHistory \<longrightarrow>
        (\<exists>n dba. archiveGridWeather f2 t2 (map (\<lambda>p. (lat p, lon p)) data2) db1 = (Inr n, dba)
           \<and> grid_weather dba = grid_weather db1
           \<and> weather_document t1 s1 \<in> set (grid_weather db1)
           \<and> archive_copy t2 t1 (weather_document t1 s1) \<in> set (grid_weather_history dba)
           \<and> archive_copy t2 t1 (weather_document t1 s1)
               \<in> set (grid_weather_history (snd (saveGridWeatherData f2 t2 data2 db1)))))
   \<and> (\<forall>f1 t1 data1 db1 pre s1 post f2 t2 data2.
        savePortWeatherData f1 t1 data1 db = (Inr (), db1) \<longrightarrow>
        data1 = pre @ s1 # post \<longrightarrow> slug s1 \<notin> slug ` set post \<longrightarrow>
        slug s1 \<in> slug ` set data2 \<longrightarrow>
        \<not> f2 Port Find \<longrightarrow> \<not> f2 Port InsertManyHistory \<longrightarrow>
        (\<exists>n dba d1. archivePortWeather f2 t2 (map slug data2) db1 = (Inr n, dba)
           \<and> port_weather dba = port_weather db1
           \<and> d1 \<in> set (port_weather db1) \<and> port_set t1 s1 d1 = d1
           \<and> archive_copy t2 t1 d1 \<in> set (port_weather_history dba)
           \<and> archive_copy t2 t1 d1
               \<in> set (port_weather_history (snd (savePortWeatherData f2 t2 data2 db1)))))"
proof (intro conjI)
  show "cdata \<noteq> [] \<longrightarrow> fst (archiveCityWeather fails now (map name cdata) db) = Inl e \<longrightarrow>
      saveCityWeatherData fails now cdata db = (Inl e, db)"
    by (intro impI city_abort)
  show "gdata \<noteq> [] \<longrightarrow>
        fst (archiveGridWeather fails now (map (\<lambda>p. (lat p, lon p)) gdata) db) = Inl e \<longrightarrow>
      saveGridWeatherData fails now gdata db = (Inl e, db)"
    by (intro impI grid_abort)
  show "pdata \<noteq> [] \<longrightarrow> fst (archivePortWeather fails now (map slug pdata) db) = Inl e \<longrightarrow>
      savePortWeatherData fails now pdata db = (Inl e, db)"
    by (intro impI port_abort)
qed (intro allI impI city_archived_first grid_archived_first port_archived_first
      city_two_writes grid_two_writes port_two_writes; assumption)+

theorem archive_before_write_witness:
  "saveCityWeatherData no_faults 10 [example_snapshot ''a'' 1 1 1] empty_db
     = (Inr (), empty_db\<lparr>city_weather := [weather_document 10 (example_snapshot ''a'' 1 1 1)]\<rparr>)
   \<and> [example_snapshot ''a'' 1 1 1] = [] @ example_snapshot ''a'' 1 1 1 # []
   \<and> name (example_snapshot ''a'' 1 1 1) \<notin> name ` set []
   \<and> name (example_snapshot ''a'' 1 1 1) \<in> name ` set [example_snapshot ''a'' 1 1 2]
   \<and> \<not> no_faults City Find \<and> \<not> no_faults City InsertManyHistory
   \<and> archive_copy 20 10 (weather_document 10 (example_snapshot ''a'' 1 1 1))
       \<in> set (city_weather_history (snd (saveCityWeatherData no_faults 20 [example_snapshot ''a'' 1 1 2]
            (empty_db\<lparr>city_weather := [weather_document 10 (example_snapshot ''a'' 1 1 1)]\<rparr>))))
   \<and> saveCityWeatherData no_faults 20 [example_snapshot ''a'' 1 1 2]
        (empty_db\<lparr>city_weather := [weather_document 10 (example_snapshot ''a'' 1 1 1)]\<rparr>)
     = (Inr (),
        empty_db\<lparr>city_weather := [weather_document 20 (example_snapshot ''a'' 1 1 2)],
          city_weather_history :=
            [archive_copy 20 10 (weather_document 10 (example_snapshot ''a'' 1 1 1))]\<rparr>)
   \<and> [example_snapshot ''a'' 1 1 2] \<noteq> []
   \<and> fst (archiveCityWeather find_fails 20 (map name [example_snapshot ''a'' 1 1 2])
        (empty_db\<lparr>city_weather := [weather_document 10 (example_snapshot ''a'' 1 1 1)]\<rparr>))
       = Inl (StoreError City Find)
   \<and> saveCityWeatherData find_fails 20 [example_snapshot ''a'' 1 1 2]
        (empty_db\<lparr>city_weather := [weather_document 10 (example_snapshot ''a'' 1 1 1)]\<rparr>)
     = (Inl (StoreError City Find),
        empty_db\<lparr>city_weather := [weather_document 10 (example_snapshot ''a'' 1 1 1)]\<rparr>)"
proof -
  let ?a1 = "example_snapshot ''a'' 1 1 1"
  let ?a2 = "example_snapshot ''a'' 1 1 2"
  let ?db1 = "empty_db\<lparr>city_weather := [weather_document 10 ?a1]\<rparr>"
  have w1: "saveCityWeatherData no_faults 10 [?a1] empty_db = (Inr (), ?db1)"
    by (simp add: saveCityWeatherData_def archiveCityWeather_def no_faults_def
        empty_db_def find_docs_def insertMany_def bulkWrite_def Let_def)
  have last: "[?a1] = [] @ ?a1 # []" "name ?a1 \<notin> name ` set []"
    by simp_all
  have again: "name ?a1 \<in> name ` set [?a2]"
    by (simp add: example_snapshot_def)
  have ok: "\<not> no_faults City Find" "\<not> no_faults City InsertManyHistory"
    by (simp_all add: no_faults_def)
  have w2: "saveCityWeatherData no_faults 20 [?a2] ?db1
     = (Inr (),
        empty_db\<lparr>city_weather := [weather_document 20 ?a2],
          city_weather_history := [archive_copy 20 10 (weather_document 10 ?a1)]\<rparr>)"
    by (simp add: saveCityWeatherData_def archiveCityWeather_def no_faults_def
        empty_db_def find_docs_def insertMany_def bulkWrite_def Let_def
        weather_document_def example_snapshot_def)
  have ne: "[?a2] \<noteq> []" by simp
  have thrown: "fst (archiveCityWeather find_fails 20 (map name [?a2]) ?db1)
       = Inl (StoreError City Find)"
    by (simp add: archiveCityWeather_def find_fails_def)
  note two = archive_before_write[where db = empty_db and cdata = "[]" and gdata = "[]"
      and pdata = "[]" and fails = no_faults and now = 0 and e = "StoreError City Find"]
  note city_two = two[THEN conjunct2, THEN conjunct2, THEN conjunct2, THEN conjunct2,
      THEN conjunct2, THEN conjunct2, THEN conjunct1]
  note inst = city_two[THEN spec[of _ no_faults], THEN spec[of _ 10], THEN spec[of _ "[?a1]"],
      THEN spec[of _ ?db1], THEN spec[of _ "[] :: nat weather list"], THEN spec[of _ ?a1],
      THEN spec[of _ "[] :: nat weather list"], THEN spec[of _ no_faults], THEN spec[of _ 20],
      THEN spec[of _ "[?a2]"], rule_format]
  from inst[OF w1 last again ok]
  have copy: "archive_copy 20 10 (weather_document 10 ?a1)
       \<in> set (city_weather_history (snd (saveCityWeatherData no_faults 20 [?a2] ?db1)))"
    by blast
  from archive_before_write[where db = ?db1 and cdata = "[?a2]" and gdata = "[]"
      and pdata = "[]" and fails = find_fails and now = 20 and e = "StoreError City Find",
      THEN conjunct1, rule_format, OF ne thrown]
  have abort: "saveCityWeatherData find_fails 20 [?a2] ?db1 = (Inl (StoreError City Find), ?db1)" .
  from w1 last again ok copy w2 ne thrown abort show ?thesis
    by blast
qed

section \<open>The per-item fetcher\<close>

lemma fetchPortWeather_status:
  "status (fetchPortWeather outcome now p) =
     (case outcome of
        TransportError m \<Rightarrow> ''error''
      | HttpResponse st body \<Rightarrow>
          if \<not> validateStatus st then ''error''
          else if st = 200 \<and> truthy body then ''success'' else ''failed'')"
  by (simp add: fetchPortWeather_def axios_get_def split: http_outcome.splits)

lemma fetchPortWeather_slug [simp]: "slug (fetchPortWeather outcome now p) = slug_p p"
  by (simp add: fetchPortWeather_def split: sum.splits)

lemma fetchPortWeather_failure:
  "status (fetchPortWeather outcome now p) \<noteq> ''success'' \<Longrightarrow>
   port_weather_data (fetchPortWeather outcome now p) = JNull
   \<and> error (fetchPortWeather outcome now p) \<noteq> None"
  by (cases "axios_get outcome") (auto simp: fetchPortWeather_def split: if_splits)

lemma fetchPortWeather_success:
  "status (fetchPortWeather outcome now p) = ''success'' \<Longrightarrow>
   error (fetchPortWeather outcome now p) = None
   \<and> truthy (port_weather_data (fetchPortWeather outcome now p))"
  by (cases "axios_get outcome") (auto simp: fetchPortWeather_def split: if_splits)

lemma main_port_loop_spec:
  "main_port_loop net clock ports i results successful failed =
     (results @ map (\<lambda>j. fetchPortWeather (net j) (clock j) (ports ! j)) [i..<length ports],
      successful + length (filter (\<lambda>j. status (fetchPortWeather (net j) (clock j) (ports ! j)) = ''success'')
                            [i..<length ports]),
      failed + length (filter (\<lambda>j. status (fetchPortWeather (net j) (clock j) (ports ! j)) \<noteq> ''success'')
                            [i..<length ports]))"
proof (induction net clock ports i results successful failed rule: main_port_loop.induct)
  case (1 net clock ports i results successful failed)
  show ?case
  proof (cases "i < length ports")
    case False
    then show ?thesis by (subst main_port_loop.simps) simp
  next
    case True
    then have upt: "[i..<length ports] = i # [i + 1..<length ports]"
      by (simp add: upt_conv_Cons)
    show ?thesis
    proof (cases "status (fetchPortWeather (net i) (clock i) (ports ! i)) = ''success''")
      case s: True
      from "1.IH"(1)[OF True refl refl s] True s show ?thesis
        by (subst main_port_loop.simps) (simp add: upt Let_def)
    next
      case s: False
      from "1.IH"(2)[OF True refl refl s] True s show ?thesis
        by (subst main_port_loop.simps) (simp add: upt Let_def)
    qed
  qed
qed

lemma length_filter_status:
  "length (filter (\<lambda>r. P (status r)) rs) = length (filter P (map status rs))"
  by (simp add: filter_map comp_def)

text \<open>
  Claim C3, amended. For every list of ports the loop returns exactly one snapshot per
  port, in the order of the ports, whatever the outcome of each request; the counters
  \<open>successful\<close> and \<open>failed\<close> add up to the number of ports. A snapshot is tagged
  \<open>success\<close> exactly when the response has status 200 and a truthy body. A response
  with another status of the 2xx range, or with status 200 and no data, is tagged
  \<open>failed\<close>, and a transport error is tagged \<open>error\<close>. On a snapshot that is not tagged
  \<open>success\<close> the payload is null and the error text is present.
\<close>

theorem port_fetch_total:
  "(\<exists>results successful failed.
      main_port_loop net clock ports 0 [] 0 0 = (results, successful, failed)
      \<and> length results = length ports
      \<and> (\<forall>i < length ports.
            results ! i = fetchPortWeather (net i) (clock i) (ports ! i)
            \<and> slug (results ! i) = slug_p (ports ! i))
      \<and> successful = length (filter (\<lambda>r. status r = ''success'') results)
      \<and> failed = length (filter (\<lambda>r. status r \<noteq> ''success'') results)
      \<and> successful + failed = length ports)
   \<and> (status (fetchPortWeather outcome now p) = ''success''
        \<longleftrightarrow> (\<exists>body. outcome = HttpResponse 200 body \<and> truthy body))
   \<and> (\<forall>st body. validateStatus st \<longrightarrow> \<not> (st = 200 \<and> truthy body)
        \<longrightarrow> status (fetchPortWeather (HttpResponse st body) now p) = ''failed'')
   \<and> (\<forall>message. status (fetchPortWeather (TransportError message) now p) = ''error'')
   \<and> (status (fetchPortWeather outcome now p) \<noteq> ''success'' \<longrightarrow>
        port_weather_data (fetchPortWeather outcome now p) = JNull
        \<and> error (fetchPortWeather outcome now p) \<noteq> None)
   \<and> (status (fetchPortWeather outcome now p) = ''success'' \<longrightarrow>
        error (fetchPortWeather outcome now p) = None
        \<and> truthy (port_weather_data (fetchPortWeather outcome now p)))"
proof (intro conjI)
  let ?f = "\<lambda>j. fetchPortWeather (net j) (clock j) (ports ! j)"
  let ?rs = "map ?f [0..<length ports]"
  have len: "length (filter (\<lambda>r. status r = ''success'') ?rs)
           + length (filter (\<lambda>r. status r \<noteq> ''success'') ?rs) = length ports"
    using sum_length_filter_compl[of "\<lambda>r. status r = ''success''" ?rs] by simp
  have "main_port_loop net clock ports 0 [] 0 0
      = (?rs, length (filter (\<lambda>r. status r = ''success'') ?rs),
         length (filter (\<lambda>r. status r \<noteq> ''success'') ?rs))"
    by (simp add: main_port_loop_spec filter_map comp_def)
  moreover have "\<forall>i < length ports. ?rs ! i = ?f i \<and> slug (?rs ! i) = slug_p (ports ! i)"
    by simp
  ultimately show "\<exists>results successful failed.
      main_port_loop net clock ports 0 [] 0 0 = (results, successful, failed)
      \<and> length results = length ports
      \<and> (\<forall>i < length ports.
            results ! i = fetchPortWeather (net i) (clock i) (ports ! i)
            \<and> slug (results ! i) = slug_p (ports ! i))
      \<and> successful = length (filter (\<lambda>r. status r = ''success'') results)
      \<and> failed = length (filter (\<lambda>r. status r \<noteq> ''success'') results)
      \<and> successful + failed = length ports"
    using len by (intro exI conjI) (assumption | simp)+
next
  show "status (fetchPortWeather outcome now p) = ''success''
        \<longleftrightarrow> (\<exists>body. outcome = HttpResponse 200 body \<and> truthy body)"
    by (cases outcome) (auto simp: fetchPortWeather_status validateStatus_def)
next
  show "\<forall>st body. validateStatus st \<longrightarrow> \<not> (st = 200 \<and> truthy body)
        \<longrightarrow> status (fetchPortWeather (HttpResponse st body) now p) = ''failed''"
    by (auto simp: fetchPortWeather_status)
next
  show "\<forall>message. status (fetchPortWeather (TransportError message) now p) = ''error''"
    by (simp add: fetchPortWeather_status)
next
  show "status (fetchPortWeather outcome now p) \<noteq> ''success'' \<longrightarrow>
        port_weather_data (fetchPortWeather outcome now p) = JNull
        \<and> error (fetchPortWeather outcome now p) \<noteq> None"
    by (intro impI fetchPortWeather_failure)
next
  show "status (fetchPortWeather outcome now p) = ''success'' \<longrightarrow>
        error (fetchPortWeather outcome now p) = None
        \<and> truthy (port_weather_data (fetchPortWeather outcome now p))"
    by (intro impI fetchPortWeather_success)
qed

text \<open>
  The scenario of the specification: ten ports, of which the requests for three fail (a
  time-out, a response 204 without a body, a response 200 with an empty body). The loop
  returns ten snapshots, seven tagged \<open>success\<close> and three tagged \<open>error\<close> or \<open>failed\<close>.
\<close>

theorem port_fetch_total_witness:
  "(\<exists>results.
      main_port_loop example_net (\<lambda>i. 1000 + int i) (map example_port [0..<10]) 0 [] 0 0
        = (results, 7, 3)
      \<and> length results = 10
      \<and> map status results
          = [''success'', ''success'', ''error'', ''success'', ''success'', ''failed'', ''success'',
             ''failed'', ''success'', ''success'']
      \<and> (2::nat) < length (map example_port [0..<10])
      \<and> results ! 2 = fetchPortWeather (example_net 2) (1000 + int 2) (map example_port [0..<10] ! 2))
   \<and> status (fetchPortWeather (example_net 2) 1002 (example_port 2)) \<noteq> ''success''
   \<and> port_weather_data (fetchPortWeather (example_net 2) 1002 (example_port 2)) = JNull
   \<and> error (fetchPortWeather (example_net 2) 1002 (example_port 2))
       = Some ''timeout of 30000ms exceeded''
   \<and> validateStatus 204 \<and> \<not> (204 = (200::nat) \<and> truthy JNull)
   \<and> status (fetchPortWeather (HttpResponse 204 JNull) 1002 (example_port 2)) = ''failed''"
proof -
  let ?ports = "map example_port [0..<10]"
  let ?clock = "\<lambda>i. 1000 + int i"
  note total = port_fetch_total[where net = example_net and clock = ?clock and ports = ?ports
      and outcome = "example_net 2" and now = 1002 and p = "example_port 2"]
  from total[THEN conjunct1] obtain results successful failed where
    run: "main_port_loop example_net ?clock ?ports 0 [] 0 0 = (results, successful, failed)"
    and len: "length results = length ?ports"
    and nth: "\<forall>i < length ?ports.
            results ! i = fetchPortWeather (example_net i) (?clock i) (?ports ! i)
            \<and> slug (results ! i) = slug_p (?ports ! i)"
    and succ: "successful = length (filter (\<lambda>r. status r = ''success'') results)"
    and fail: "failed = length (filter (\<lambda>r. status r \<noteq> ''success'') results)"
    by (elim exE conjE)
  have res: "results = map (\<lambda>j. fetchPortWeather (example_net j) (?clock j) (?ports ! j)) [0..<length ?ports]"
    using run by (simp add: main_port_loop_spec)
  have st: "map status results
          = [''success'', ''success'', ''error'', ''success'', ''success'', ''failed'', ''success'',
             ''failed'', ''success'', ''success'']"
    unfolding res
    by (simp add: fetchPortWeather_status example_net_def validateStatus_def upt_rec comp_def)
  have s7: "successful = 7"
    unfolding succ length_filter_status[of "\<lambda>s. s = ''success''"] st by simp
  have f3: "failed = 3"
    unfolding fail length_filter_status[of "\<lambda>s. s \<noteq> ''success''"] st by simp
  have two: "(2::nat) < length ?ports" by simp
  from nth two have r2: "results ! 2 = fetchPortWeather (example_net 2) (?clock 2) (?ports ! 2)"
    by blast
  have bad: "status (fetchPortWeather (example_net 2) 1002 (example_port 2)) \<noteq> ''success''"
    by (simp add: fetchPortWeather_status example_net_def)
  from total[THEN conjunct2, THEN conjunct2, THEN conjunct2, THEN conjunct2, THEN conjunct1,
      rule_format, OF bad]
  have null: "port_weather_data (fetchPortWeather (example_net 2) 1002 (example_port 2)) = JNull"
    by blast
  have err: "error (fetchPortWeather (example_net 2) 1002 (example_port 2))
       = Some ''timeout of 30000ms exceeded''"
    by (simp add: fetchPortWeather_def axios_get_def example_net_def)
  have ok: "validateStatus 204" by (simp add: validateStatus_def)
  have other: "\<not> (204 = (200::nat) \<and> truthy JNull)" by simp
  from total[THEN conjunct2, THEN conjunct2, THEN conjunct1, rule_format, OF ok other]
  have failed: "status (fetchPortWeather (HttpResponse 204 JNull) 1002 (example_port 2)) = ''failed''" .
  from run len st s7 f3 two r2 bad null err ok other failed show ?thesis
    by auto
qed

text \<open>
  The claim as stated fails on a response of the 2xx range other than 200: it carries
  data and is tagged \<open>failed\<close>, not \<open>success\<close>.
\<close>

theorem port_fetch_total_counterexample:
  "validateStatus 201 \<and> truthy (JStr ''cuaca'')
   \<and> status (fetchPortWeather (HttpResponse 201 (JStr ''cuaca'')) 0 (example_port 1)) = ''failed''"
  by (simp add: fetchPortWeather_def axios_get_def validateStatus_def)

section \<open>The orchestrator\<close>

lemma runCollectorWithRetry_3:
  "runCollectorWithRetry collector c 3 =
     (if collector c 1 = Exit 0 then (True, [Run c 1])
      else if collector c 2 = Exit 0 then (True, [Run c 1, Wait 5000, Run c 2])
      else if collector c 3 = Exit 0
        then (True, [Run c 1, Wait 5000, Run c 2, Wait 10000, Run c 3])
        else (False, [Run c 1, Wait 5000, Run c 2, Wait 10000, Run c 3]))"
proof -
  define fn where "fn = (\<lambda>attempt. case collector c attempt of
                           Exit exitCode \<Rightarrow>
                             if exitCode \<noteq> 0
                             then (Inl (''Collector returned exit code '' @ string_of_nat exitCode),
                                   [Run c attempt])
                             else (Inr (), [Run c attempt])
                         | Throws message \<Rightarrow> (Inl message, [Run c attempt]))"
  have ok: "\<And>a. collector c a = Exit 0 \<Longrightarrow> fn a = (Inr (), [Run c a])"
    by (simp add: fn_def)
  have ko: "\<And>a. collector c a \<noteq> Exit 0 \<Longrightarrow> \<exists>err. fn a = (Inl err, [Run c a])"
    by (auto simp: fn_def split: collector_outcome.splits)
  have step3: "retryWithBackoff fn 3 5000 3 tr =
      (if collector c 3 = Exit 0 then (Inr (Some ()), tr @ [Run c 3])
       else (Inl (SOME err. fn 3 = (Inl err, [Run c 3])), tr @ [Run c 3]))" for tr
  proof (cases "collector c 3 = Exit 0")
    case True
    with ok[OF True] show ?thesis by (subst retryWithBackoff.simps) simp
  next
    case False
    from ko[OF False] obtain err where e: "fn 3 = (Inl err, [Run c 3])" by blast
    then have "(SOME err. fn 3 = (Inl err, [Run c 3])) = err" by auto
    with e False show ?thesis by (subst retryWithBackoff.simps) simp
  qed
  have step2: "retryWithBackoff fn 3 5000 2 tr =
      (if collector c 2 = Exit 0 then (Inr (Some ()), tr @ [Run c 2])
       else retryWithBackoff fn 3 5000 3 (tr @ [Run c 2, Wait 10000]))" for tr
  proof (cases "collector c 2 = Exit 0")
    case True
    with ok[OF True] show ?thesis by (subst retryWithBackoff.simps) simp
  next
    case False
    from ko[OF False] obtain err where e: "fn 2 = (Inl err, [Run c 2])" by blast
    with False show ?thesis by (subst retryWithBackoff.simps) (simp add: numeral_3_eq_3)
  qed
  have step1: "retryWithBackoff fn 3 5000 1 [] =
      (if collector c 1 = Exit 0 then (Inr (Some ()), [Run c 1])
       else retryWithBackoff fn 3 5000 2 [Run c 1, Wait 5000])"
  proof (cases "collector c 1 = Exit 0")
    case True
    with ok[OF True] show ?thesis by (subst retryWithBackoff.simps) simp
  next
    case False
    from ko[OF False] obtain err where e: "fn 1 = (Inl err, [Run c 1])" by blast
    with False show ?thesis by (subst retryWithBackoff.simps) (simp add: numeral_2_eq_2)
  qed
  have run: "runCollectorWithRetry collector c 3 =
      (case retryWithBackoff fn 3 5000 1 [] of
         (Inr v, trace) \<Rightarrow> (True, trace) | (Inl err, trace) \<Rightarrow> (False, trace))"
    unfolding runCollectorWithRetry_def fn_def by (rule refl)
  show ?thesis
    unfolding run step1 step2 step3 by (simp del: One_nat_def)
qed

lemma run_collectors_COLLECTORS:
  "run_collectors collector COLLECTORS ([], []) =
     ([(''City Weather'', fst (runCollectorWithRetry collector City 3)),
       (''Grid Weather'', fst (runCollectorWithRetry collector Grid 3)),
       (''Port Weather'', fst (runCollectorWithRetry collector Port 3))],
      snd (runCollectorWithRetry collector City 3) @ [Wait 5000]
        @ snd (runCollectorWithRetry collector Grid 3) @ [Wait 5000]
        @ snd (runCollectorWithRetry collector Port 3))"
  by (simp add: COLLECTORS_def split: prod.splits)

text \<open>
  Claim C9, amended. Each class flow is attempted at most three times; a failed attempt
  (a non-zero exit code or an exception) other than the last is followed by a delay that
  doubles from attempt to attempt, 5000 ms and then 10000 ms; the flow succeeds with its
  first successful attempt. The three classes run one after the other, city, grid, port,
  with a pause of 5000 ms between classes. When the store connection is made, the
  orchestrator produces a report with one entry per class, also when some class failed,
  and its exit code is 0 exactly when every class succeeded and the disconnection did
  not fail, and 1 otherwise.
\<close>

theorem orchestrator_report:
  "runCollectorWithRetry collector c 3 =
     (if collector c 1 = Exit 0 then (True, [Run c 1])
      else if collector c 2 = Exit 0 then (True, [Run c 1, Wait 5000, Run c 2])
      else if collector c 3 = Exit 0
        then (True, [Run c 1, Wait 5000, Run c 2, Wait 10000, Run c 3])
        else (False, [Run c 1, Wait 5000, Run c 2, Wait 10000, Run c 3]))
   \<and> (connects \<longrightarrow>
        (\<exists>exitCode. main_orchestrator connects disconnects collector =
            (exitCode,
             Some [(''City Weather'', fst (runCollectorWithRetry collector City 3)),
                   (''Grid Weather'', fst (runCollectorWithRetry collector Grid 3)),
                   (''Port Weather'', fst (runCollectorWithRetry collector Port 3))],
             snd (runCollectorWithRetry collector City 3) @ [Wait 5000]
               @ snd (runCollectorWithRetry collector Grid 3) @ [Wait 5000]
               @ snd (runCollectorWithRetry collector Port 3))
          \<and> (exitCode = 0 \<or> exitCode = 1)
          \<and> (exitCode = 0 \<longleftrightarrow>
                disconnects
                \<and> fst (runCollectorWithRetry collector City 3)
                \<and> fst (runCollectorWithRetry collector Grid 3)
                \<and> fst (runCollectorWithRetry collector Port 3))))
   \<and> (\<not> connects \<longrightarrow> main_orchestrator connects disconnects collector = (1, None, []))"
proof (intro conjI impI)
  show "runCollectorWithRetry collector c 3 =
     (if collector c 1 = Exit 0 then (True, [Run c 1])
      else if collector c 2 = Exit 0 then (True, [Run c 1, Wait 5000, Run c 2])
      else if collector c 3 = Exit 0
        then (True, [Run c 1, Wait 5000, Run c 2, Wait 10000, Run c 3])
        else (False, [Run c 1, Wait 5000, Run c 2, Wait 10000, Run c 3]))"
    by (rule runCollectorWithRetry_3)
next
  assume "\<not> connects"
  then show "main_orchestrator connects disconnects collector = (1, None, [])"
    by (simp add: main_orchestrator_def)
next
  assume c: connects
  let ?c = "fst (runCollectorWithRetry collector City 3)"
  let ?g = "fst (runCollectorWithRetry collector Grid 3)"
  let ?p = "fst (runCollectorWithRetry collector Port 3)"
  have count: "(length (filter snd [(''City Weather'', ?c), (''Grid Weather'', ?g), (''Port Weather'', ?p)])
                  = length [(''City Weather'', ?c), (''Grid Weather'', ?g), (''Port Weather'', ?p)])
               \<longleftrightarrow> ?c \<and> ?g \<and> ?p"
    by auto
  show "\<exists>exitCode. main_orchestrator connects disconnects collector =
            (exitCode,
             Some [(''City Weather'', ?c), (''Grid Weather'', ?g), (''Port Weather'', ?p)],
             snd (runCollectorWithRetry collector City 3) @ [Wait 5000]
               @ snd (runCollectorWithRetry collector Grid 3) @ [Wait 5000]
               @ snd (runCollectorWithRetry collector Port 3))
          \<and> (exitCode = 0 \<or> exitCode = 1)
          \<and> (exitCode = 0 \<longleftrightarrow> disconnects \<and> ?c \<and> ?g \<and> ?p)"
    using c count
    by (simp add: main_orchestrator_def run_collectors_COLLECTORS Let_def)
qed

theorem orchestrator_report_witness:
  "main_orchestrator True True example_collector
     = (1,
        Some [(''City Weather'', True), (''Grid Weather'', True), (''Port Weather'', False)],
        [Run City 1, Wait 5000,
         Run Grid 1, Wait 5000, Run Grid 2, Wait 5000,
         Run Port 1, Wait 5000, Run Port 2, Wait 10000, Run Port 3])"
proof -
  note report = orchestrator_report[where collector = example_collector and connects = True
      and disconnects = True]
  have city: "runCollectorWithRetry example_collector City 3 = (True, [Run City 1])"
    using report[where c = City, THEN conjunct1] by (simp add: example_collector_def)
  have grid: "runCollectorWithRetry example_collector Grid 3
      = (True, [Run Grid 1, Wait 5000, Run Grid 2])"
    using report[where c = Grid, THEN conjunct1] by (simp add: example_collector_def)
  have port: "runCollectorWithRetry example_collector Port 3
      = (False, [Run Port 1, Wait 5000, Run Port 2, Wait 10000, Run Port 3])"
    using report[where c = Port, THEN conjunct1] by (simp add: example_collector_def)
  from report[where c = City, THEN conjunct2, THEN conjunct1] show ?thesis
    by (auto simp: city grid port)
qed

text \<open>
  The delay between the attempts is not fixed: a collector that keeps failing is retried
  after 5000 ms and then after 10000 ms.
\<close>

theorem orchestrator_report_counterexample:
  "runCollectorWithRetry (\<lambda>c attempt. Exit 1) Grid 3
     = (False, [Run Grid 1, Wait 5000, Run Grid 2, Wait 10000, Run Grid 3])
   \<and> (5000::nat) \<noteq> 10000"
  by (simp add: runCollectorWithRetry_3)

section \<open>The batched fetcher\<close>

lemma fetchWeatherDataBatch_Inr:
  "fetchWeatherDataBatch outcome now locations
     = Inr (batch_data outcome now locations, batch_log outcome now locations)"
  by (simp add: batch_data_def batch_log_def fetchWeatherDataBatch_def split: meteo_outcome.splits)

lemma batch_data_error [simp]: "batch_data (MeteoError message) now locations = []"
  by (simp add: batch_data_def fetchWeatherDataBatch_def)

lemma batch_log_sleeps [simp]: "sleeps (batch_log outcome now locations) = []"
  by (simp add: batch_log_def fetchWeatherDataBatch_def sleeps_def split: meteo_outcome.splits)

lemma batch_log_requests [simp]: "requests (batch_log outcome now locations) = []"
  by (simp add: batch_log_def fetchWeatherDataBatch_def requests_def split: meteo_outcome.splits)

lemma sleeps_append [simp]: "sleeps (xs @ ys) = sleeps xs @ sleeps ys"
  by (simp add: sleeps_def)

lemma requests_append [simp]: "requests (xs @ ys) = requests xs @ requests ys"
  by (simp add: requests_def)

lemma sleeps_simps [simp]:
  "sleeps [] = []" "sleeps (Sleep ms # tr) = ms # sleeps tr"
  "sleeps (Request b k # tr) = sleeps tr" "sleeps (LogFetchError m # tr) = sleeps tr"
  "sleeps (LogBatchCompleted b n # tr) = sleeps tr" "sleeps (LogBatchFailed b n # tr) = sleeps tr"
  "sleeps (LogRateLimit b n # tr) = sleeps tr" "sleeps (LogBatchError b m # tr) = sleeps tr"
  "sleeps (LogExhausted b # tr) = sleeps tr"
  by (simp_all add: sleeps_def)

lemma requests_simps [simp]:
  "requests [] = []" "requests (Sleep ms # tr) = requests tr"
  "requests (Request b k # tr) = (b, k) # requests tr" "requests (LogFetchError m # tr) = requests tr"
  "requests (LogBatchCompleted b n # tr) = requests tr" "requests (LogBatchFailed b n # tr) = requests tr"
  "requests (LogRateLimit b n # tr) = requests tr" "requests (LogBatchError b m # tr) = requests tr"
  "requests (LogExhausted b # tr) = requests tr"
  by (simp_all add: requests_def)

lemma retry_loop_unfold:
  "retry_loop provider now R b locs r delay st =
     (if r < R then
        if batch_data (provider b r) now locs \<noteq> []
        then (fst st @ batch_data (provider b r) now locs,
              snd st @ [Request b r] @ batch_log (provider b r) now locs
                @ [LogBatchCompleted b (length (batch_data (provider b r) now locs))])
        else retry_loop provider now R b locs (r + 1) delay
               (fst st, snd st @ [Request b r] @ batch_log (provider b r) now locs
                          @ [LogBatchFailed b (r + 1)])
      else st)"
  by (subst retry_loop.simps) (simp add: fetchWeatherDataBatch_Inr)

lemma retry_loop_sleeps:
  "sleeps (snd (retry_loop provider now R b locs r delay st)) = sleeps (snd st)"
proof (induction "R - r" arbitrary: r st)
  case 0
  then show ?case by (subst retry_loop_unfold) simp
next
  case (Suc n)
  then have "n = R - (r + 1)" and "r < R" by simp_all
  with Suc.hyps(1)[of "r + 1"] show ?case
    by (subst retry_loop_unfold) simp
qed

lemma retry_loop_acc:
  "fst (retry_loop provider now R b locs r delay st)
     = fst st @ fst (retry_loop provider now R b locs r delay ([], []))"
proof (induction "R - r" arbitrary: r st)
  case 0
  then show ?case by (simp add: retry_loop_unfold[where r = r])
next
  case (Suc n)
  then have n: "n = R - (r + 1)" and r: "r < R" by simp_all
  show ?case
  proof (cases "batch_data (provider b r) now locs = []")
    case False
    with r show ?thesis by (simp add: retry_loop_unfold[where r = r])
  next
    case True
    let ?ev = "[Request b r] @ batch_log (provider b r) now locs @ [LogBatchFailed b (r + 1)]"
    have 1: "fst (retry_loop provider now R b locs r delay st)
        = fst (retry_loop provider now R b locs (r + 1) delay (fst st, snd st @ ?ev))"
      using True r by (simp add: retry_loop_unfold[where r = r])
    have 2: "fst (retry_loop provider now R b locs r delay ([], []))
        = fst (retry_loop provider now R b locs (r + 1) delay ([], ?ev))"
      using True r by (simp add: retry_loop_unfold[where r = r])
    from Suc.hyps(1)[OF n, of "(fst st, snd st @ ?ev)"] Suc.hyps(1)[OF n, of "([], ?ev)"]
    show ?thesis unfolding 1 2 by simp
  qed
qed

lemma retry_loop_dropped:
  assumes "\<forall>k. r \<le> k \<and> k < R \<longrightarrow> batch_data (provider b k) now locs = []"
  shows "fst (retry_loop provider now R b locs r delay st) = fst st
       \<and> requests (snd (retry_loop provider now R b locs r delay st))
           = requests (snd st) @ map (\<lambda>k. (b, k)) [r..<R]"
  using assms
proof (induction "R - r" arbitrary: r st)
  case 0
  then show ?case by (simp add: retry_loop_unfold[where r = r])
next
  case (Suc n)
  then have n: "n = R - (r + 1)" and r: "r < R" by simp_all
  from Suc.prems r have empty: "batch_data (provider b r) now locs = []" by simp
  from Suc.prems have rest: "\<forall>k. r + 1 \<le> k \<and> k < R \<longrightarrow> batch_data (provider b k) now locs = []"
    by simp
  from r have upt: "[r..<R] = r # [r + 1..<R]" by (simp add: upt_conv_Cons)
  let ?ev = "[Request b r] @ batch_log (provider b r) now locs @ [LogBatchFailed b (r + 1)]"
  have step: "retry_loop provider now R b locs r delay st
      = retry_loop provider now R b locs (r + 1) delay (fst st, snd st @ ?ev)"
    using empty r by (simp add: retry_loop_unfold[where r = r])
  from Suc.hyps(1)[OF n rest, of "(fst st, snd st @ ?ev)"] show ?case
    unfolding step upt by simp
qed

lemma retry_loop_found:
  assumes "r \<le> k" and "k < R" and "batch_data (provider b k) now locs \<noteq> []"
      and "\<forall>j. r \<le> j \<and> j < k \<longrightarrow> batch_data (provider b j) now locs = []"
  shows "fst (retry_loop provider now R b locs r delay st) = fst st @ batch_data (provider b k) now locs
       \<and> requests (snd (retry_loop provider now R b locs r delay st))
           = requests (snd st) @ map (\<lambda>j. (b, j)) [r..<k + 1]"
  using assms
proof (induction "k - r" arbitrary: r st)
  case 0
  then have "r = k" by simp
  with 0 show ?case by (simp add: retry_loop_unfold[where r = k])
next
  case (Suc n)
  then have n: "n = k - (r + 1)" and rk: "r < k" and r: "r < R" by simp_all
  from Suc.prems rk have empty: "batch_data (provider b r) now locs = []" by simp
  from Suc.prems have rest: "\<forall>j. r + 1 \<le> j \<and> j < k \<longrightarrow> batch_data (provider b j) now locs = []"
    by simp
  from rk have upt: "[r..<k + 1] = r # [r + 1..<k + 1]" by (simp add: upt_conv_Cons)
  let ?ev = "[Request b r] @ batch_log (provider b r) now locs @ [LogBatchFailed b (r + 1)]"
  have step: "retry_loop provider now R b locs r delay st
      = retry_loop provider now R b locs (r + 1) delay (fst st, snd st @ ?ev)"
    using empty r by (simp add: retry_loop_unfold[where r = r])
  from rk have le: "r + 1 \<le> k" by simp
  from Suc.hyps(1)[OF n le Suc.prems(2,3) rest, of "(fst st, snd st @ ?ev)"] show ?case
    unfolding step upt by simp
qed

lemma batch_loop_spec:
  "fst (batch_loop provider now R requestDelayMs batches b st)
     = fst st @ concat (map (\<lambda>j. fst (retry_loop provider now R j (batches ! j) 0 60000 ([], [])))
                           [b..<length batches])
   \<and> sleeps (snd (batch_loop provider now R requestDelayMs batches b st))
     = sleeps (snd st) @ replicate (length batches - 1 - b) (requestDelayMs * 10)"
proof (induction "length batches - b" arbitrary: b st)
  case 0
  then show ?case by (subst (1 2) batch_loop.simps) simp
next
  case (Suc n)
  then have n: "n = length batches - (b + 1)" and b: "b < length batches" by simp_all
  from b have upt: "[b..<length batches] = b # [b + 1..<length batches]"
    by (simp add: upt_conv_Cons)
  let ?st1 = "retry_loop provider now R b (batches ! b) 0 60000 st"
  let ?st2 = "if b < length batches - 1
              then (fst ?st1, snd ?st1 @ [Sleep (requestDelayMs * 10)]) else ?st1"
  have step: "batch_loop provider now R requestDelayMs batches b st
      = batch_loop provider now R requestDelayMs batches (b + 1) ?st2"
    using b by (subst batch_loop.simps) (simp add: Let_def)
  have f: "fst ?st2 = fst st @ fst (retry_loop provider now R b (batches ! b) 0 60000 ([], []))"
    using retry_loop_acc[of provider now R b "batches ! b" 0 60000 st] by simp
  have sl: "sleeps (snd ?st2)
      = sleeps (snd st) @ (if b < length batches - 1 then [requestDelayMs * 10] else [])"
    by (simp add: retry_loop_sleeps)
  have rep: "(if b < length batches - 1 then [requestDelayMs * 10] else [])
               @ replicate (length batches - 1 - (b + 1)) (requestDelayMs * 10)
             = replicate (length batches - 1 - b) (requestDelayMs * 10)"
  proof (cases "b < length batches - 1")
    case True
    then have "length batches - 1 - b = Suc (length batches - 1 - (b + 1))" by simp
    with True show ?thesis by (simp only: if_True replicate_Suc append_Cons append_Nil)
  next
    case False
    with b have "length batches - 1 - b = 0" "length batches - 1 - (b + 1) = 0" by simp_all
    with False show ?thesis by simp
  qed
  from Suc.hyps(1)[OF n, of ?st2] have
    ih1: "fst (batch_loop provider now R requestDelayMs batches (b + 1) ?st2)
       = fst ?st2 @ concat (map (\<lambda>j. fst (retry_loop provider now R j (batches ! j) 0 60000 ([], [])))
                           [b + 1..<length batches])"
    and ih2: "sleeps (snd (batch_loop provider now R requestDelayMs batches (b + 1) ?st2))
       = sleeps (snd ?st2) @ replicate (length batches - 1 - (b + 1)) (requestDelayMs * 10)"
    by blast+
  show ?case
    unfolding step ih1 ih2 f sl upt using rep by simp
qed

text \<open>
  Claim C2, amended. \<open>fetchWeatherDataBatch\<close> never throws: it returns the data of the
  answer, and the empty list when the request fails. For every batch, the same batch is
  requested again while an attempt yields no data, at most \<open>R\<close> attempts in all:
  \<^item> when none of the \<open>R\<close> attempts yields data, \<open>R\<close> requests are made and the batch adds
    nothing to the output (it is dropped);
  \<^item> when attempt \<open>k\<close> is the first that yields data, \<open>k + 1\<close> requests are made and the
    data of attempt \<open>k\<close> is appended to the output.
  The output of the fetcher is the concatenation, over the batches in order, of what each
  batch yields on its own, so a dropped batch does not stop the batches after it. When no
  failure signals rate limiting, the only sleeps are the waits between batches: a failed
  attempt is retried at once, with no backoff.
\<close>

theorem batched_fetch_retry:
  "(\<exists>batchData logged. fetchWeatherDataBatch outcome now locs = Inr (batchData, logged))
   \<and> batch_data (MeteoError message) now locs = []
   \<and> ((\<forall>k < R. batch_data (provider b k) now locs = []) \<longrightarrow>
         fst (retry_loop provider now R b locs 0 60000 (acc, tr)) = acc
       \<and> requests (snd (retry_loop provider now R b locs 0 60000 (acc, tr)))
           = requests tr @ map (\<lambda>k. (b, k)) [0..<R])
   \<and> (\<forall>k. k < R \<and> batch_data (provider b k) now locs \<noteq> []
            \<and> (\<forall>j < k. batch_data (provider b j) now locs = []) \<longrightarrow>
         fst (retry_loop provider now R b locs 0 60000 (acc, tr))
           = acc @ batch_data (provider b k) now locs
       \<and> requests (snd (retry_loop provider now R b locs 0 60000 (acc, tr)))
           = requests tr @ map (\<lambda>j. (b, j)) [0..<k + 1])
   \<and> (0 < batchSize \<and> locations \<noteq> [] \<longrightarrow>
        (\<exists>batches out trace.
           batchArray locations batchSize = Some batches
         \<and> fetchWeatherDataBatched provider now R requestDelayMs locations batchSize
             = Some (out, trace)
         \<and> out = concat (map (\<lambda>j. fst (retry_loop provider now R j (batches ! j) 0 60000 ([], [])))
                            [0..<length batches])
         \<and> ((\<forall>b k message. provider b k = MeteoError message \<longrightarrow>
                 \<not> (includes_str (toLowerCase message) ''rate limit''
                    \<or> includes_str (toLowerCase message) ''minutely''))
              \<longrightarrow> sleeps trace = replicate (length batches - 1) (requestDelayMs * 10))))"
proof (intro conjI impI allI)
  show "\<exists>batchData logged. fetchWeatherDataBatch outcome now locs = Inr (batchData, logged)"
    by (simp add: fetchWeatherDataBatch_Inr)
  show "batch_data (MeteoError message) now locs = []"
    by simp
next
  assume "\<forall>k < R. batch_data (provider b k) now locs = []"
  then have "\<forall>k. 0 \<le> k \<and> k < R \<longrightarrow> batch_data (provider b k) now locs = []" by simp
  from this retry_loop_dropped[where provider = provider and now = now and R = R and b = b
      and locs = locs and r = 0 and delay = 60000 and st = "(acc, tr)"]
  show "fst (retry_loop provider now R b locs 0 60000 (acc, tr)) = acc"
    and "requests (snd (retry_loop provider now R b locs 0 60000 (acc, tr)))
           = requests tr @ map (\<lambda>k. (b, k)) [0..<R]"
    by simp_all
next
  fix k
  assume a: "k < R \<and> batch_data (provider b k) now locs \<noteq> []
            \<and> (\<forall>j < k. batch_data (provider b j) now locs = [])"
  then have "\<forall>j. 0 \<le> j \<and> j < k \<longrightarrow> batch_data (provider b j) now locs = []" by simp
  from this a retry_loop_found[where provider = provider and now = now and R = R and b = b
      and locs = locs and r = 0 and k = k and delay = 60000 and st = "(acc, tr)"]
  show "fst (retry_loop provider now R b locs 0 60000 (acc, tr))
           = acc @ batch_data (provider b k) now locs"
    and "requests (snd (retry_loop provider now R b locs 0 60000 (acc, tr)))
           = requests tr @ map (\<lambda>j. (b, j)) [0..<k + 1]"
    by simp_all
next
  assume a: "0 < batchSize \<and> locations \<noteq> []"
  then have pos: "0 < batchSize" and ne: "locations \<noteq> []" by simp_all
  from batchArray_loop_spec[OF pos, of locations 0 "[]"] obtain batches where
    b: "batchArray locations batchSize = Some batches"
    by (auto simp: batchArray_def)
  let ?run = "batch_loop provider now R requestDelayMs batches 0 ([], [])"
  have run: "fetchWeatherDataBatched provider now R requestDelayMs locations batchSize
      = Some (fst ?run, snd ?run)"
    using ne b by (simp add: fetchWeatherDataBatched_def)
  note spec = batch_loop_spec[of provider now R requestDelayMs batches 0 "([], [])"]
  from spec have out: "fst ?run
      = concat (map (\<lambda>j. fst (retry_loop provider now R j (batches ! j) 0 60000 ([], [])))
                    [0..<length batches])"
    by simp
  from spec have sl: "sleeps (snd ?run) = replicate (length batches - 1) (requestDelayMs * 10)"
    by simp
  from b run out sl
  show "\<exists>batches out trace.
           batchArray locations batchSize = Some batches
         \<and> fetchWeatherDataBatched provider now R requestDelayMs locations batchSize
             = Some (out, trace)
         \<and> out = concat (map (\<lambda>j. fst (retry_loop provider now R j (batches ! j) 0 60000 ([], [])))
                            [0..<length batches])
         \<and> ((\<forall>b k message. provider b k = MeteoError message \<longrightarrow>
                 \<not> (includes_str (toLowerCase message) ''rate limit''
                    \<or> includes_str (toLowerCase message) ''minutely''))
              \<longrightarrow> sleeps trace = replicate (length batches - 1) (requestDelayMs * 10))"
    by blast
qed

lemma example_batches:
  "batchArray [example_point 0, example_point 1, example_point 2, example_point 3, example_point 4] 2
     = Some [[example_point 0, example_point 1], [example_point 2, example_point 3],
             [example_point 4]]"
  by (simp add: batchArray_def batchArray_loop.simps slice_def)

theorem batched_fetch_retry_witness:
  "(0::nat) < 2
   \<and> [example_point 0, example_point 1, example_point 2, example_point 3, example_point 4] \<noteq> []
   \<and> (\<exists>out trace.
        fetchWeatherDataBatched example_provider 0 3 500
          [example_point 0, example_point 1, example_point 2, example_point 3, example_point 4] 2
          = Some (out, trace)
        \<and> map name out = [''p0'', ''p1'', ''p4'']
        \<and> sleeps trace = [5000, 5000])"
proof -
  let ?points = "[example_point 0, example_point 1, example_point 2, example_point 3, example_point 4]"
  have pre: "0 < (2::nat) \<and> ?points \<noteq> []" by simp
  have calm: "\<forall>b k message. example_provider b k = MeteoError message \<longrightarrow>
                 \<not> (includes_str (toLowerCase message) ''rate limit''
                    \<or> includes_str (toLowerCase message) ''minutely'')"
    by (auto simp: example_provider_def toLowerCase_def split: if_splits)
  note whole = batched_fetch_retry[where provider = example_provider and now = 0 and R = 3
      and requestDelayMs = 500 and locations = ?points and batchSize = 2
      and outcome = MeteoOther and locs = "[]" and message = "[]" and b = 0
      and acc = "[]" and tr = "[]",
      THEN conjunct2, THEN conjunct2, THEN conjunct2, THEN conjunct2, rule_format, OF pre]
  then obtain batches out trace where
    b: "batchArray ?points 2 = Some batches"
    and run: "fetchWeatherDataBatched example_provider 0 3 500 ?points 2 = Some (out, trace)"
    and out: "out = concat (map (\<lambda>j. fst (retry_loop example_provider 0 3 j (batches ! j) 0 60000 ([], [])))
                            [0..<length batches])"
    and sl: "(\<forall>b k message. example_provider b k = MeteoError message \<longrightarrow>
                 \<not> (includes_str (toLowerCase message) ''rate limit''
                    \<or> includes_str (toLowerCase message) ''minutely''))
              \<longrightarrow> sleeps trace = replicate (length batches - 1) (500 * 10)"
    by (elim exE conjE)
  from b[unfolded example_batches] have batches: "batches = [[example_point 0, example_point 1],
      [example_point 2, example_point 3], [example_point 4]]"
    by simp
  from sl calm have "sleeps trace = replicate (length batches - 1) (500 * 10)"
    by blast
  then have sleeps: "sleeps trace = [5000, 5000]"
    by (simp add: batches numeral_2_eq_2)
  have names: "map name out = [''p0'', ''p1'', ''p4'']"
    unfolding out batches
    by (simp add: upt_rec retry_loop.simps fetchWeatherDataBatch_def example_provider_def
        process_location_def example_point_def string_of_nat.simps digit_char_def)
  from run names sleeps have "\<exists>out trace.
        fetchWeatherDataBatched example_provider 0 3 500 ?points 2 = Some (out, trace)
        \<and> map name out = [''p0'', ''p1'', ''p4'']
        \<and> sleeps trace = [5000, 5000]"
    by (intro exI conjI)
  with pre show ?thesis by simp
qed

text \<open>
  With a provider whose every request times out, two batches and three attempts each,
  the only sleep of the run is the wait between the two batches: no backoff separates the
  attempts.
\<close>

theorem batched_fetch_retry_counterexample:
  "fetchWeatherDataBatched failing_provider 0 3 500 [example_point 0, example_point 1] 1
     = Some ([], [Request 0 0, LogFetchError ''timeout of 5000ms exceeded'', LogBatchFailed 0 1,
               Request 0 1, LogFetchError ''timeout of 5000ms exceeded'', LogBatchFailed 0 2,
               Request 0 2, LogFetchError ''timeout of 5000ms exceeded'', LogBatchFailed 0 3,
               Sleep 5000,
               Request 1 0, LogFetchError ''timeout of 5000ms exceeded'', LogBatchFailed 1 1,
               Request 1 1, LogFetchError ''timeout of 5000ms exceeded'', LogBatchFailed 1 2,
               Request 1 2, LogFetchError ''timeout of 5000ms exceeded'', LogBatchFailed 1 3])
   \<and> sleeps [Request 0 0, LogFetchError ''timeout of 5000ms exceeded'', LogBatchFailed 0 1,
               Request 0 1, LogFetchError ''timeout of 5000ms exceeded'', LogBatchFailed 0 2,
               Request 0 2, LogFetchError ''timeout of 5000ms exceeded'', LogBatchFailed 0 3,
               Sleep 5000,
               Request 1 0, LogFetchError ''timeout of 5000ms exceeded'', LogBatchFailed 1 1,
               Request 1 1, LogFetchError ''timeout of 5000ms exceeded'', LogBatchFailed 1 2,
               Request 1 2, LogFetchError ''timeout of 5000ms exceeded'', LogBatchFailed 1 3]
       = [5000]"
  by (simp add: fetchWeatherDataBatched_def batchArray_def batchArray_loop.simps slice_def
      batch_loop.simps retry_loop.simps
      fetchWeatherDataBatch_def failing_provider_def Let_def)

end
